theory Spec2Isabelle
  imports Complex_Main
begin

section \<open>JavaScript values, errors and strings\<close>

text \<open>
  JavaScript numbers that carry token amounts and balances are modelled as reals: the
  code below only passes them on, compares them and takes minima. Dates are
  millisecond timestamps. Database ids are integers.
\<close>

type_synonym jsnum = real
type_synonym date = int

text \<open>
  A thrown value. Besides the message, the route handlers read \<^verbatim>\<open>error.code\<close> and
  \<^verbatim>\<open>error.meta?.target\<close> of errors thrown by the ORM.
\<close>

record js_error =
  err_message :: string
  err_code :: "string option"
  err_target :: "string list option"

definition Error :: "string \<Rightarrow> js_error" where
  "Error m = \<lparr>err_message = m, err_code = None, err_target = None\<rparr>"

text \<open>\<^verbatim>\<open>String.prototype.includes\<close>: the needle occurs as a contiguous substring.\<close>

fun starts_with :: "string \<Rightarrow> string \<Rightarrow> bool" where
  "starts_with s [] = True"
| "starts_with [] (c # cs) = False"
| "starts_with (x # xs) (c # cs) = (x = c \<and> starts_with xs cs)"

fun str_includes :: "string \<Rightarrow> string \<Rightarrow> bool" where
  "str_includes [] needle = (needle = [])"
| "str_includes (x # xs) needle = (starts_with (x # xs) needle \<or> str_includes xs needle)"

text \<open>
  \<^verbatim>\<open>parseInt(s, 10)\<close>: leading white space is skipped, an optional sign is read, then
  the longest prefix of decimal digits; the result is NaN (here \<open>None\<close>) when there is no
  digit. White space is the ASCII white space; the line and space separators beyond
  ASCII that JavaScript also skips are not recognised here.
\<close>

definition is_ws :: "char \<Rightarrow> bool" where
  "is_ws c = (of_char c \<in> {9, 10, 11, 12, 13, 32 :: nat})"

definition is_digit :: "char \<Rightarrow> bool" where
  "is_digit c = (48 \<le> (of_char c :: nat) \<and> (of_char c :: nat) \<le> 57)"

definition digit_val :: "char \<Rightarrow> int" where
  "digit_val c = int (of_char c) - 48"

fun parse_digits :: "int option \<Rightarrow> string \<Rightarrow> int option" where
  "parse_digits acc [] = acc"
| "parse_digits acc (c # cs) =
     (if is_digit c
      then parse_digits (Some (10 * (case acc of None \<Rightarrow> 0 | Some a \<Rightarrow> a) + digit_val c)) cs
      else acc)"

definition parseInt :: "string \<Rightarrow> int option" where
  "parseInt s =
     (case dropWhile is_ws s of
        [] \<Rightarrow> None
      | c # r \<Rightarrow>
          if c = CHR ''-'' then map_option uminus (parse_digits None r)
          else if c = CHR ''+'' then parse_digits None r
          else parse_digits None (c # r))"

section \<open>The relational store\<close>

text \<open>
  The tables of \<^verbatim>\<open>prisma/schema.prisma\<close>, one list of rows each, with the fields the
  storage layer reads and writes. Each table's id comes from its own sequence.
\<close>

record user =
  u_id :: int
  u_walletAddress :: string
  u_username :: "string option"
  u_email :: "string option"
  u_createdAt :: date
  u_lastLogin :: "date option"

record userPreference =
  pr_id :: int
  pr_userId :: int
  pr_telegramChatId :: "string option"
  pr_telegramUsername :: "string option"
  pr_riskTolerance :: string
  pr_preferredChains :: "string list"
  pr_preferredTokens :: "string list"
  pr_notificationsEnabled :: bool

record yieldOpportunity =
  o_id :: int
  o_name :: string
  o_protocol :: string
  o_apy :: jsnum
  o_riskLevel :: string
  o_tokenPair :: "string list"
  o_depositFee :: jsnum

record portfolioRow =
  p_id :: int
  p_userId :: int
  p_opportunityId :: int
  p_amount :: jsnum
  p_depositDate :: date
  p_token :: string
  p_active :: bool

record transactionRow =
  t_id :: int
  t_userId :: int
  t_opportunityId :: int
  t_transactionType :: string
  t_amount :: jsnum
  t_token :: string
  t_transactionDate :: date
  t_status :: string
  t_transactionHash :: "string option"

record solanaSubscription =
  s_id :: int
  s_userId :: int
  s_subscriptionDate :: date
  s_transactionHash :: "string option"
  s_amount :: jsnum
  s_currency :: string
  s_isActive :: bool

record db =
  users :: "user list"
  preferences :: "userPreference list"
  opportunities :: "yieldOpportunity list"
  portfolios :: "portfolioRow list"
  transactions :: "transactionRow list"
  subscriptions :: "solanaSubscription list"
  users_seq :: int
  preferences_seq :: int
  portfolios_seq :: int
  transactions_seq :: int
  subscriptions_seq :: int

subsection \<open>The ORM calls\<close>

text \<open>
  What the database enforces is part of each call: the unique index on
  \<^verbatim>\<open>users.wallet_address\<close> and on \<^verbatim>\<open>user_preferences.user_id\<close> (error P2002, whose
  \<^verbatim>\<open>meta.target\<close> names the column), the foreign keys of the migration (error P2003) and
  the missing row of an update (error P2025). The amount columns of
  \<^verbatim>\<open>user_portfolios\<close> and \<^verbatim>\<open>transactions\<close> are \<^verbatim>\<open>DECIMAL(20,2)\<close>: the database
  rounds an amount to two decimals, half away from zero, and refuses one that then
  needs more than eighteen digits before the point (error P2020). Failures of the
  connection itself are outside the model.
\<close>

definition P2002 :: "string \<Rightarrow> js_error" where
  "P2002 column =
     \<lparr>err_message = ''Unique constraint failed'', err_code = Some ''P2002'',
      err_target = Some [column]\<rparr>"

definition P2003 :: js_error where
  "P2003 =
     \<lparr>err_message = ''Foreign key constraint failed'', err_code = Some ''P2003'',
      err_target = None\<rparr>"

definition P2025 :: js_error where
  "P2025 =
     \<lparr>err_message = ''Record to update not found'', err_code = Some ''P2025'',
      err_target = None\<rparr>"

definition P2020 :: js_error where
  "P2020 =
     \<lparr>err_message = ''Value out of range for the type'', err_code = Some ''P2020'',
      err_target = None\<rparr>"

definition decimal_20_2 :: "jsnum \<Rightarrow> jsnum" where
  "decimal_20_2 x =
     (if 0 \<le> x then real_of_int \<lfloor>x * 100 + 1 / 2\<rfloor> / 100
      else - (real_of_int \<lfloor>- x * 100 + 1 / 2\<rfloor> / 100))"

definition fits_decimal_20_2 :: "jsnum \<Rightarrow> bool" where
  "fits_decimal_20_2 x = (\<bar>decimal_20_2 x\<bar> < 10 ^ 18)"

definition user_exists :: "db \<Rightarrow> int \<Rightarrow> bool" where
  "user_exists d i = (i \<in> set (map u_id (users d)))"

definition opportunity_exists :: "db \<Rightarrow> int \<Rightarrow> bool" where
  "opportunity_exists d i = (i \<in> set (map o_id (opportunities d)))"

definition prisma_user_findUnique_walletAddress :: "db \<Rightarrow> string \<Rightarrow> user option" where
  "prisma_user_findUnique_walletAddress d w = find (\<lambda>u. u_walletAddress u = w) (users d)"

record insertUser =
  iu_walletAddress :: string
  iu_username :: "string option"
  iu_email :: "string option"
  iu_lastLogin :: "date option"

definition prisma_user_create :: "db \<Rightarrow> insertUser \<Rightarrow> date \<Rightarrow> js_error + db \<times> user" where
  "prisma_user_create d data now =
     (if iu_walletAddress data \<in> set (map u_walletAddress (users d))
      then Inl (P2002 ''wallet_address'')
      else
        let u = \<lparr>u_id = users_seq d, u_walletAddress = iu_walletAddress data,
                 u_username = iu_username data, u_email = iu_email data,
                 u_createdAt = now, u_lastLogin = iu_lastLogin data\<rparr>
        in Inr (d\<lparr>users := users d @ [u], users_seq := users_seq d + 1\<rparr>, u))"

definition prisma_user_update_lastLogin :: "db \<Rightarrow> int \<Rightarrow> date \<Rightarrow> js_error + db" where
  "prisma_user_update_lastLogin d i now =
     (if user_exists d i
      then Inr (d\<lparr>users :=
                  map (\<lambda>u. if u_id u = i then u\<lparr>u_lastLogin := Some now\<rparr> else u) (users d)\<rparr>)
      else Inl P2025)"

definition prisma_yieldOpportunity_findUnique :: "db \<Rightarrow> int \<Rightarrow> yieldOpportunity option" where
  "prisma_yieldOpportunity_findUnique d i = find (\<lambda>opp. o_id opp = i) (opportunities d)"

record insertUserPortfolio =
  ip_userId :: int
  ip_opportunityId :: int
  ip_amount :: jsnum
  ip_depositDate :: date
  ip_token :: string
  ip_active :: bool

definition prisma_userPortfolio_create ::
  "db \<Rightarrow> insertUserPortfolio \<Rightarrow> js_error + db \<times> portfolioRow" where
  "prisma_userPortfolio_create d data =
     (if \<not> fits_decimal_20_2 (ip_amount data) then Inl P2020
      else if user_exists d (ip_userId data) \<and> opportunity_exists d (ip_opportunityId data)
      then
        let r = \<lparr>p_id = portfolios_seq d, p_userId = ip_userId data,
                 p_opportunityId = ip_opportunityId data,
                 p_amount = decimal_20_2 (ip_amount data),
                 p_depositDate = ip_depositDate data, p_token = ip_token data,
                 p_active = ip_active data\<rparr>
        in Inr (d\<lparr>portfolios := portfolios d @ [r], portfolios_seq := portfolios_seq d + 1\<rparr>, r)
      else Inl P2003)"

record insertTransaction =
  it_userId :: int
  it_opportunityId :: int
  it_transactionType :: string
  it_amount :: jsnum
  it_token :: string
  it_transactionDate :: date
  it_status :: string
  it_transactionHash :: "string option"

definition prisma_transaction_create ::
  "db \<Rightarrow> insertTransaction \<Rightarrow> js_error + db \<times> transactionRow" where
  "prisma_transaction_create d data =
     (if \<not> fits_decimal_20_2 (it_amount data) then Inl P2020
      else if user_exists d (it_userId data) \<and> opportunity_exists d (it_opportunityId data)
      then
        let r = \<lparr>t_id = transactions_seq d, t_userId = it_userId data,
                 t_opportunityId = it_opportunityId data,
                 t_transactionType = it_transactionType data,
                 t_amount = decimal_20_2 (it_amount data),
                 t_token = it_token data, t_transactionDate = it_transactionDate data,
                 t_status = it_status data, t_transactionHash = it_transactionHash data\<rparr>
        in Inr (d\<lparr>transactions := transactions d @ [r],
                  transactions_seq := transactions_seq d + 1\<rparr>, r)
      else Inl P2003)"

section \<open>The storage layer (DatabaseStorage)\<close>

text \<open>
  The item \<^verbatim>\<open>createInvestment\<close> returns: the new portfolio row with the name, protocol
  and APY of its opportunity.
\<close>

record userPortfolio =
  up_id :: int
  up_userId :: int
  up_opportunityId :: int
  up_amount :: jsnum
  up_depositDate :: date
  up_token :: string
  up_active :: bool
  up_name :: string
  up_protocol :: string
  up_apy :: jsnum

text \<open>
  \<^verbatim>\<open>createInvestment(userId, data)\<close>. The two values the method draws from its
  environment are arguments here: \<open>now\<close> is \<^verbatim>\<open>new Date()\<close> and \<open>hash\<close> the string of
  \<^verbatim>\<open>generateFakeTransactionHash()\<close>. The user id written is the parsed \<open>userId\<close>
  argument, not \<^verbatim>\<open>data.userId\<close>. The item returned carries the amount as the store
  holds it. A throw leaves the store as the calls before it made it.
\<close>

definition createInvestment ::
  "db \<Rightarrow> string \<Rightarrow> insertUserPortfolio \<Rightarrow> date \<Rightarrow> string \<Rightarrow> db \<times> (js_error + userPortfolio)" where
  "createInvestment d userId data now hash =
     (case parseInt userId of
        None \<Rightarrow> (d, Inl (Error ''Invalid user ID''))
      | Some numericUserId \<Rightarrow>
          (case prisma_userPortfolio_create d
                  \<lparr>ip_userId = numericUserId, ip_opportunityId = ip_opportunityId data,
                   ip_amount = ip_amount data, ip_depositDate = ip_depositDate data,
                   ip_token = ip_token data, ip_active = ip_active data\<rparr> of
             Inl e \<Rightarrow> (d, Inl e)
           | Inr (d1, investment) \<Rightarrow>
               (case prisma_transaction_create d1
                       \<lparr>it_userId = numericUserId, it_opportunityId = ip_opportunityId data,
                        it_transactionType = ''invest'', it_amount = ip_amount data,
                        it_token = ip_token data, it_transactionDate = now,
                        it_status = ''completed'', it_transactionHash = Some hash\<rparr> of
                  Inl e \<Rightarrow> (d1, Inl e)
                | Inr (d2, tx) \<Rightarrow>
                    (case prisma_yieldOpportunity_findUnique d2 (ip_opportunityId data) of
                       None \<Rightarrow> (d2, Inl (Error ''Opportunity not found''))
                     | Some opportunity \<Rightarrow>
                         (d2, Inr \<lparr>up_id = p_id investment, up_userId = p_userId investment,
                                   up_opportunityId = p_opportunityId investment,
                                   up_amount = p_amount investment,
                                   up_depositDate = p_depositDate investment,
                                   up_token = p_token investment,
                                   up_active = p_active investment,
                                   up_name = o_name opportunity,
                                   up_protocol = o_protocol opportunity,
                                   up_apy = o_apy opportunity\<rparr>)))))"

text \<open>\<^verbatim>\<open>Number.prototype.toString\<close> on an integer id.\<close>

fun toString_nat :: "nat \<Rightarrow> string" where
  "toString_nat n =
     (if n < 10 then [char_of (48 + n)]
      else toString_nat (n div 10) @ [char_of (48 + n mod 10)])"

definition toString_int :: "int \<Rightarrow> string" where
  "toString_int i = (if i < 0 then CHR ''-'' # toString_nat (nat (- i)) else toString_nat (nat i))"

definition getUserByWalletAddress :: "db \<Rightarrow> string \<Rightarrow> user option" where
  "getUserByWalletAddress d walletAddress = prisma_user_findUnique_walletAddress d walletAddress"

definition createUser :: "db \<Rightarrow> insertUser \<Rightarrow> date \<Rightarrow> js_error + db \<times> user" where
  "createUser d insertUser now = prisma_user_create d insertUser now"

subsection \<open>Subscriptions\<close>

text \<open>
  \<^verbatim>\<open>findFirst\<close> with \<^verbatim>\<open>where: { userId, isActive: true }\<close> and
  \<^verbatim>\<open>orderBy: { subscriptionDate: 'desc' }\<close>: the matching row with the latest date;
  among rows of equal date the earliest in the table is taken.
\<close>

fun latest :: "solanaSubscription list \<Rightarrow> solanaSubscription option" where
  "latest [] = None"
| "latest (x # xs) =
     (case latest xs of
        None \<Rightarrow> Some x
      | Some y \<Rightarrow> if s_subscriptionDate x < s_subscriptionDate y then Some y else Some x)"

definition getUserSubscription :: "db \<Rightarrow> int \<Rightarrow> solanaSubscription option" where
  "getUserSubscription d userId =
     latest (filter (\<lambda>s. s_userId s = userId \<and> s_isActive s) (subscriptions d))"

record insertSolanaSubscription =
  is_userId :: int
  is_transactionHash :: "string option"
  is_amount :: jsnum
  is_currency :: string
  is_isActive :: bool

text \<open>The subscription date is the column's default, the time of the insert.\<close>

definition createSubscription ::
  "db \<Rightarrow> insertSolanaSubscription \<Rightarrow> date \<Rightarrow> js_error + db \<times> solanaSubscription" where
  "createSubscription d insertSubscription now =
     (if user_exists d (is_userId insertSubscription)
      then
        let s = \<lparr>s_id = subscriptions_seq d, s_userId = is_userId insertSubscription,
                 s_subscriptionDate = now,
                 s_transactionHash = is_transactionHash insertSubscription,
                 s_amount = is_amount insertSubscription,
                 s_currency = is_currency insertSubscription,
                 s_isActive = is_isActive insertSubscription\<rparr>
        in Inr (d\<lparr>subscriptions := subscriptions d @ [s],
                  subscriptions_seq := subscriptions_seq d + 1\<rparr>, s)
      else Inl P2003)"

text \<open>\<^verbatim>\<open>!!subscription && subscription.isActive\<close>\<close>

definition checkUserIsSubscribed :: "db \<Rightarrow> int \<Rightarrow> bool" where
  "checkUserIsSubscribed d userId =
     (case getUserSubscription d userId of
        None \<Rightarrow> False
      | Some subscription \<Rightarrow> s_isActive subscription)"

subsection \<open>User preferences\<close>

record insertUserPreference =
  ipr_userId :: int
  ipr_telegramChatId :: "string option"
  ipr_telegramUsername :: "string option"
  ipr_riskTolerance :: string
  ipr_preferredChains :: "string list option"
  ipr_preferredTokens :: "string list option"
  ipr_notificationsEnabled :: bool

definition createUserPreferences ::
  "db \<Rightarrow> string \<Rightarrow> insertUserPreference \<Rightarrow> js_error + db \<times> userPreference" where
  "createUserPreferences d userId data =
     (case parseInt userId of
        None \<Rightarrow> Inl (Error ''Invalid user ID'')
      | Some numericUserId \<Rightarrow>
          if numericUserId \<in> set (map pr_userId (preferences d)) then Inl (P2002 ''user_id'')
          else if \<not> user_exists d numericUserId then Inl P2003
          else
            let r = \<lparr>pr_id = preferences_seq d, pr_userId = numericUserId,
                     pr_telegramChatId = ipr_telegramChatId data,
                     pr_telegramUsername = ipr_telegramUsername data,
                     pr_riskTolerance = ipr_riskTolerance data,
                     pr_preferredChains =
                       (case ipr_preferredChains data of None \<Rightarrow> [] | Some cs \<Rightarrow> cs),
                     pr_preferredTokens =
                       (case ipr_preferredTokens data of None \<Rightarrow> [] | Some ts \<Rightarrow> ts),
                     pr_notificationsEnabled = ipr_notificationsEnabled data\<rparr>
            in Inr (d\<lparr>preferences := preferences d @ [r],
                      preferences_seq := preferences_seq d + 1\<rparr>, r))"

text \<open>
  \<^verbatim>\<open>getYieldOpportunities()\<close> with no protocol and the default \<^verbatim>\<open>sortBy = 'apy'\<close>: all
  opportunities by descending APY.
\<close>

definition getYieldOpportunities :: "db \<Rightarrow> yieldOpportunity list" where
  "getYieldOpportunities d = sort_key (\<lambda>opp. - o_apy opp) (opportunities d)"

section \<open>The wallet sessions (SolanaService)\<close>

record walletData =
  wd_address :: string
  wd_userId :: "int option"

record walletStatus =
  ws_connected :: bool
  ws_address :: "string option"
  ws_balance :: "jsnum option"
  ws_userId :: "int option"

text \<open>
  The server: the store, the wallets connected per session and the chat histories per
  session. The RPC node is an argument of the calls that reach it: \<open>getBalance\<close> gives
  the lamports of an address or throws.
\<close>

datatype role = System | RoleUser | Assistant

record chatMessage =
  cm_role :: role
  cm_content :: string

record server =
  store :: db
  connectedWallets :: "string \<rightharpoonup> walletData"
  userChats :: "string \<rightharpoonup> chatMessage list"

definition not_connected :: walletStatus where
  "not_connected =
     \<lparr>ws_connected = False, ws_address = None, ws_balance = None, ws_userId = None\<rparr>"

definition getWalletStatus ::
  "(string \<Rightarrow> js_error + jsnum) \<Rightarrow> server \<Rightarrow> string \<Rightarrow> walletStatus" where
  "getWalletStatus getBalance srv sessionId =
     (case connectedWallets srv sessionId of
        None \<Rightarrow> not_connected
      | Some walletData \<Rightarrow>
          (case getBalance (wd_address walletData) of
             Inl e \<Rightarrow> not_connected
           | Inr balance \<Rightarrow>
               \<lparr>ws_connected = True, ws_address = Some (wd_address walletData),
                ws_balance = Some (balance / 1000000000),
                ws_userId = wd_userId walletData\<rparr>))"

definition setUserIdForSession :: "server \<Rightarrow> string \<Rightarrow> int \<Rightarrow> js_error + server" where
  "setUserIdForSession srv sessionId userId =
     (case connectedWallets srv sessionId of
        None \<Rightarrow> Inl (Error ''No wallet connected for this session'')
      | Some walletData \<Rightarrow>
          Inr (srv\<lparr>connectedWallets :=
                     (connectedWallets srv)(sessionId \<mapsto> walletData\<lparr>wd_userId := Some userId\<rparr>)\<rparr>))"

text \<open>
  Where a handler tests \<^verbatim>\<open>walletStatus.userId\<close> for truth, the model tests that the
  id is present and not zero.
\<close>

section \<open>The chat service (OpenAIService)\<close>

record transactionIntent =
  ti_action :: string
  ti_protocol :: "string option"
  ti_amount :: "jsnum option"
  ti_opportunityId :: "jsnum option"

definition no_intent :: transactionIntent where
  "no_intent =
     \<lparr>ti_action = ''none'', ti_protocol = None, ti_amount = None, ti_opportunityId = None\<rparr>"

record chat_reply =
  cr_response :: string
  cr_transactionIntent :: transactionIntent

text \<open>
  What the service takes from outside the repository: whether the OpenAI client was
  built (\<^verbatim>\<open>this.openai\<close> is not null), the content of the first choice of a chat
  completion (empty for a null or empty content; the call may throw), the intent the
  second completion's JSON parses to (with the default intent where the source's own
  catch gives it), the system prompt and the printing of a number in a template string.
\<close>

record openai_env =
  client_available :: bool
  chat_completion :: "chatMessage list \<Rightarrow> js_error + string"
  intent_completion :: "string \<Rightarrow> yieldOpportunity list \<Rightarrow> transactionIntent"
  getSystemPrompt :: string
  showNumber :: "jsnum \<Rightarrow> string"

fun join_with :: "string \<Rightarrow> string list \<Rightarrow> string" where
  "join_with sep [] = []"
| "join_with sep [x] = x"
| "join_with sep (x # y # ys) = x @ sep @ join_with sep (y # ys)"

definition formatYieldOpportunities :: "openai_env \<Rightarrow> yieldOpportunity list \<Rightarrow> string" where
  "formatYieldOpportunities env opps =
     (if opps = [] then ''No yield opportunities available at the moment.''
      else ''Available yield opportunities:'' @ [CHR 0x0A] @
           join_with [CHR 0x0A]
             (map (\<lambda>opp. ''- '' @ o_name opp @ '' ('' @ o_protocol opp @ ''): '' @
                          showNumber env (o_apy opp) @ ''% APY, Risk: '' @ o_riskLevel opp)
                  opps))"

definition extractTransactionIntent ::
  "openai_env \<Rightarrow> string \<Rightarrow> yieldOpportunity list \<Rightarrow> transactionIntent" where
  "extractTransactionIntent env message opps =
     (if \<not> client_available env then no_intent
      else if opps = [] \<or> length message < 10 then no_intent
      else intent_completion env message opps)"

text \<open>
  \<^verbatim>\<open>processMessage(sessionId, message)\<close>. Every throw inside is caught by the method
  itself, so it always returns a reply. It reads the opportunities of the store and
  the session's chat history, and nothing else of the server.
\<close>

definition processMessage ::
  "openai_env \<Rightarrow> server \<Rightarrow> string \<Rightarrow> string \<Rightarrow> server \<times> chat_reply" where
  "processMessage env srv sessionId message =
     (let stored = (case userChats srv sessionId of None \<Rightarrow> [] | Some h \<Rightarrow> h);
          started = (if stored = []
                     then [\<lparr>cm_role = System, cm_content = getSystemPrompt env\<rparr>]
                     else stored);
          chatHistory = started @ [\<lparr>cm_role = RoleUser, cm_content = message\<rparr>];
          yieldOpportunities = getYieldOpportunities (store srv);
          yieldContext = formatYieldOpportunities env yieldOpportunities;
          contextualMessage =
            message @ [CHR 0x0A, CHR 0x0A] @ ''Here are the current yield opportunities:'' @
            [CHR 0x0A] @ yieldContext;
          messages = butlast chatHistory @
                     [\<lparr>cm_role = RoleUser, cm_content = contextualMessage\<rparr>];
          answer =
            (if client_available env
             then (case chat_completion env messages of
                     Inl e \<Rightarrow>
                       (''I'' @ [CHR 0x27] @ ''m sorry, I encountered an error processing your request. Please try again later.'',
                        no_intent)
                   | Inr content \<Rightarrow>
                       ((if content = []
                         then ''I'' @ [CHR 0x27] @ ''m sorry, I couldn'' @ [CHR 0x27] @ ''t process your request.''
                         else content),
                        extractTransactionIntent env message yieldOpportunities))
             else (''I'' @ [CHR 0x27] @ ''m sorry, but the AI chat service is currently unavailable. Please try again later or contact support for assistance.'',
                   no_intent));
          answered = chatHistory @ [\<lparr>cm_role = Assistant, cm_content = fst answer\<rparr>];
          kept = (if length answered > 10
                  then hd answered # drop (length answered - 9) answered
                  else answered)
      in (srv\<lparr>userChats := (userChats srv)(sessionId \<mapsto> kept)\<rparr>,
          \<lparr>cr_response = fst answer, cr_transactionIntent = snd answer\<rparr>))"

section \<open>The route handlers (registerRoutes)\<close>

text \<open>
  A response is either \<^verbatim>\<open>res.json(body)\<close>, with status 200, or
  \<^verbatim>\<open>res.status(code).json({ error: message })\<close>.
\<close>

datatype 'a http = Json 'a | Status nat string

text \<open>
  The test both registration paths make on a caught error:
  \<^verbatim>\<open>error.code === 'P2002' && error.meta?.target?.includes('wallet_address')\<close>.
\<close>

definition is_wallet_unique_violation :: "js_error \<Rightarrow> bool" where
  "is_wallet_unique_violation error =
     (err_code error = Some ''P2002'' \<and>
      (case err_target error of None \<Rightarrow> False | Some t \<Rightarrow> ''wallet_address'' \<in> set t))"

definition default_preferences :: "int \<Rightarrow> insertUserPreference" where
  "default_preferences userId =
     \<lparr>ipr_userId = userId, ipr_telegramChatId = None, ipr_telegramUsername = None,
      ipr_riskTolerance = ''moderate-conservative'', ipr_preferredChains = Some [''solana''],
      ipr_preferredTokens = Some [''SOL'', ''USDC''], ipr_notificationsEnabled = True\<rparr>"

text \<open>
  POST /api/wallet/register. The body's \<^verbatim>\<open>walletAddress\<close> is \<open>None\<close> when absent. The
  handler awaits the lookup and then the insert; \<open>interleaved\<close> is what other requests
  do to the store between the two. The body of the 200 response is
  \<^verbatim>\<open>{ success: true, userId }\<close>, given here by its user id.
\<close>

definition register_route ::
  "db \<Rightarrow> (db \<Rightarrow> db) \<Rightarrow> string option \<Rightarrow> date \<Rightarrow> db \<times> int http" where
  "register_route d interleaved walletAddress now =
     (case walletAddress of
        None \<Rightarrow> (d, Status 400 ''Wallet address is required'')
      | Some w \<Rightarrow>
          if w = [] then (d, Status 400 ''Wallet address is required'')
          else
            (case getUserByWalletAddress d w of
               Some user \<Rightarrow>
                 (case prisma_user_update_lastLogin d (u_id user) now of
                    Inl error \<Rightarrow> (d, Status 500 (err_message error))
                  | Inr d1 \<Rightarrow> (d1, Json (u_id user)))
             | None \<Rightarrow>
                 (let d0 = interleaved d in
                  case createUser d0
                         \<lparr>iu_walletAddress = w, iu_username = None, iu_email = None,
                          iu_lastLogin = Some now\<rparr> now of
                    Inr (d1, user) \<Rightarrow>
                      (case createUserPreferences d1 (toString_int (u_id user))
                              (default_preferences (u_id user)) of
                         Inl error \<Rightarrow> (d1, Json (u_id user))
                       | Inr (d2, prefs) \<Rightarrow> (d2, Json (u_id user)))
                  | Inl error \<Rightarrow>
                      if is_wallet_unique_violation error
                      then (case getUserByWalletAddress d0 w of
                              None \<Rightarrow> (d0, Status 500 (err_message error))
                            | Some user \<Rightarrow> (d0, Json (u_id user)))
                      else (d0, Status 500 (err_message error)))))"

text \<open>
  POST /api/wallet/subscribe. A field of the body is \<open>None\<close> when the body lacks it;
  the schema requires the wallet address, the transaction hash and the amount, and
  defaults the currency to USDC.
\<close>

record subscribe_body =
  sb_walletAddress :: "string option"
  sb_transactionHash :: "string option"
  sb_amount :: "jsnum option"
  sb_currency :: "string option"

record subscription_request =
  sq_walletAddress :: string
  sq_transactionHash :: string
  sq_amount :: jsnum
  sq_currency :: string

definition parse_subscription :: "subscribe_body \<Rightarrow> js_error + subscription_request" where
  "parse_subscription b =
     (case sb_walletAddress b of
        None \<Rightarrow> Inl (Error ''Required'')
      | Some w \<Rightarrow>
          (case sb_transactionHash b of
             None \<Rightarrow> Inl (Error ''Required'')
           | Some h \<Rightarrow>
               (case sb_amount b of
                  None \<Rightarrow> Inl (Error ''Required'')
                | Some a \<Rightarrow>
                    Inr \<lparr>sq_walletAddress = w, sq_transactionHash = h, sq_amount = a,
                         sq_currency = (case sb_currency b of None \<Rightarrow> ''USDC'' | Some c \<Rightarrow> c)\<rparr>)))"

record subscribe_reply =
  sr_success :: bool
  sr_subscription :: solanaSubscription
  sr_message :: "string option"

text \<open>
  The user a subscription request is for: the user id of the session when its wallet
  is connected and carries one, otherwise the user of the body's wallet address, who is
  created when missing and then attached to a connected session.
\<close>

definition attach_session ::
  "walletStatus \<Rightarrow> server \<Rightarrow> string \<Rightarrow> int \<Rightarrow> server \<times> (js_error + int)" where
  "attach_session walletStatus srv sessionID userId =
     (if ws_connected walletStatus
      then (case setUserIdForSession srv sessionID userId of
              Inl error \<Rightarrow> (srv, Inl error)
            | Inr srv1 \<Rightarrow> (srv1, Inr userId))
      else (srv, Inr userId))"

definition find_or_create_user ::
  "walletStatus \<Rightarrow> server \<Rightarrow> string \<Rightarrow> string \<Rightarrow> date \<Rightarrow> server \<times> (js_error + int)" where
  "find_or_create_user walletStatus srv sessionID walletAddress now =
     (case getUserByWalletAddress (store srv) walletAddress of
        Some user \<Rightarrow> attach_session walletStatus srv sessionID (u_id user)
      | None \<Rightarrow>
          (case createUser (store srv)
                  \<lparr>iu_walletAddress = walletAddress, iu_username = None, iu_email = None,
                   iu_lastLogin = Some now\<rparr> now of
             Inr (d1, user) \<Rightarrow>
               attach_session walletStatus (srv\<lparr>store := d1\<rparr>) sessionID (u_id user)
           | Inl error \<Rightarrow>
               if is_wallet_unique_violation error
               then (case getUserByWalletAddress (store srv) walletAddress of
                       None \<Rightarrow> (srv, Inl error)
                     | Some user \<Rightarrow> attach_session walletStatus srv sessionID (u_id user))
               else (srv, Inl error)))"

definition subscriber ::
  "(string \<Rightarrow> js_error + jsnum) \<Rightarrow> server \<Rightarrow> string \<Rightarrow> string \<Rightarrow> date \<Rightarrow>
     server \<times> (js_error + int)" where
  "subscriber getBalance srv sessionID walletAddress now =
     (let walletStatus = getWalletStatus getBalance srv sessionID in
      case ws_userId walletStatus of
        None \<Rightarrow> find_or_create_user walletStatus srv sessionID walletAddress now
      | Some userId \<Rightarrow>
          if ws_connected walletStatus \<and> userId \<noteq> 0 then (srv, Inr userId)
          else find_or_create_user walletStatus srv sessionID walletAddress now)"

definition create_subscription_reply ::
  "server \<Rightarrow> int \<Rightarrow> subscription_request \<Rightarrow> date \<Rightarrow> server \<times> subscribe_reply http" where
  "create_subscription_reply srv userId req now =
     (case createSubscription (store srv)
             \<lparr>is_userId = userId, is_transactionHash = Some (sq_transactionHash req),
              is_amount = sq_amount req, is_currency = sq_currency req,
              is_isActive = True\<rparr> now of
        Inl error \<Rightarrow> (srv, Status 400 (err_message error))
      | Inr (d2, subscription) \<Rightarrow>
          (srv\<lparr>store := d2\<rparr>,
           Json \<lparr>sr_success = True, sr_subscription = subscription, sr_message = None\<rparr>))"

definition subscribe_route ::
  "(string \<Rightarrow> js_error + jsnum) \<Rightarrow> server \<Rightarrow> string \<Rightarrow> subscribe_body \<Rightarrow> date \<Rightarrow>
     server \<times> subscribe_reply http" where
  "subscribe_route getBalance srv sessionID body now =
     (case parse_subscription body of
        Inl error \<Rightarrow> (srv, Status 400 (err_message error))
      | Inr req \<Rightarrow>
          (case subscriber getBalance srv sessionID (sq_walletAddress req) now of
             (srv1, Inl error) \<Rightarrow> (srv1, Status 400 (err_message error))
           | (srv1, Inr userId) \<Rightarrow>
               (case getUserSubscription (store srv1) userId of
                  None \<Rightarrow> create_subscription_reply srv1 userId req now
                | Some existingSubscription \<Rightarrow>
                    if s_isActive existingSubscription
                    then (srv1, Json \<lparr>sr_success = True, sr_subscription = existingSubscription,
                                       sr_message = Some ''Subscription already active''\<rparr>)
                    else create_subscription_reply srv1 userId req now)))"

text \<open>
  POST /api/chat. The message is \<open>None\<close> when the body's \<^verbatim>\<open>message\<close> is absent or not a
  string; the empty string is rejected with it. Nothing the handler calls throws, so
  its catch, the 500 response, is not reached.
\<close>

definition chat_route ::
  "openai_env \<Rightarrow> (string \<Rightarrow> js_error + jsnum) \<Rightarrow> server \<Rightarrow> string \<Rightarrow> string option \<Rightarrow>
     server \<times> chat_reply http" where
  "chat_route env getBalance srv sessionID message =
     (case message of
        None \<Rightarrow> (srv, Status 400 ''Message is required'')
      | Some m \<Rightarrow>
          if m = [] then (srv, Status 400 ''Message is required'')
          else if \<not> ws_connected (getWalletStatus getBalance srv sessionID)
          then (srv, Status 401 ''Wallet not connected'')
          else (case processMessage env srv sessionID m of
                  (srv1, result) \<Rightarrow> (srv1, Json result)))"

text \<open>
  POST /api/portfolio/invest. The body is checked against
  \<^verbatim>\<open>insertUserPortfolioSchema\<close>: user id, opportunity id, amount, deposit date (a
  \<^verbatim>\<open>Date\<close>) and token are required, \<^verbatim>\<open>active\<close> defaults to true. A field is \<open>None\<close>
  when the body lacks it or holds a value of another type.
\<close>

record invest_body =
  ib_userId :: "int option"
  ib_opportunityId :: "int option"
  ib_amount :: "jsnum option"
  ib_depositDate :: "date option"
  ib_token :: "string option"
  ib_active :: "bool option"

definition parse_insertUserPortfolio :: "invest_body \<Rightarrow> js_error + insertUserPortfolio" where
  "parse_insertUserPortfolio b =
     (case ib_userId b of
        None \<Rightarrow> Inl (Error ''Required'')
      | Some u \<Rightarrow>
          (case ib_opportunityId b of
             None \<Rightarrow> Inl (Error ''Required'')
           | Some opp \<Rightarrow>
               (case ib_amount b of
                  None \<Rightarrow> Inl (Error ''Required'')
                | Some a \<Rightarrow>
                    (case ib_depositDate b of
                       None \<Rightarrow> Inl (Error ''Required'')
                     | Some dd \<Rightarrow>
                         (case ib_token b of
                            None \<Rightarrow> Inl (Error ''Required'')
                          | Some tk \<Rightarrow>
                              Inr \<lparr>ip_userId = u, ip_opportunityId = opp, ip_amount = a,
                                   ip_depositDate = dd, ip_token = tk,
                                   ip_active = (case ib_active b of None \<Rightarrow> True | Some x \<Rightarrow> x)\<rparr>)))))"

definition invest_route ::
  "(string \<Rightarrow> js_error + jsnum) \<Rightarrow> server \<Rightarrow> string \<Rightarrow> invest_body \<Rightarrow> date \<Rightarrow> string \<Rightarrow>
     server \<times> userPortfolio http" where
  "invest_route getBalance srv sessionID body now hash =
     (let walletStatus = getWalletStatus getBalance srv sessionID in
      case ws_userId walletStatus of
        None \<Rightarrow> (srv, Status 401 ''Not connected or user not found'')
      | Some userId \<Rightarrow>
          if \<not> ws_connected walletStatus \<or> userId = 0
          then (srv, Status 401 ''Not connected or user not found'')
          else
            (case parse_insertUserPortfolio body of
               Inl error \<Rightarrow> (srv, Status 400 (err_message error))
             | Inr investData \<Rightarrow>
                 (case createInvestment (store srv) (toString_int userId) investData now hash of
                    (d1, Inl error) \<Rightarrow> (srv\<lparr>store := d1\<rparr>, Status 400 (err_message error))
                  | (d1, Inr result) \<Rightarrow> (srv\<lparr>store := d1\<rparr>, Json result))))"

section \<open>The client: swap, liquidity and staking helpers\<close>

text \<open>
  An awaited call either gives a value or throws. \<open>and_then\<close> is the sequencing of
  two awaits, \<open>try_catch\<close> a \<^verbatim>\<open>try { ... } catch (error) { ... }\<close> around a block.
\<close>

definition and_then :: "js_error + 'a \<Rightarrow> ('a \<Rightarrow> js_error + 'b) \<Rightarrow> js_error + 'b" where
  "and_then m f = (case m of Inl e \<Rightarrow> Inl e | Inr x \<Rightarrow> f x)"

definition try_catch :: "js_error + 'a \<Rightarrow> (js_error \<Rightarrow> js_error + 'a) \<Rightarrow> js_error + 'a" where
  "try_catch m handler = (case m of Inl e \<Rightarrow> handler e | Inr x \<Rightarrow> Inr x)"

subsection \<open>solanaSwap.ts\<close>

text \<open>
  The swap venue's quote: amounts in the smallest unit of each token. The venue and
  the wallet are arguments: the priority fee, the quote for an amount of lamports and a
  slippage in basis points, the transactions built for a fee and a quote (already
  deserialised), the wallet's signature, the submission and the confirmation of a
  transaction.
\<close>

record swapCompute =
  sc_inputAmount :: int
  sc_outputAmount :: int
  sc_otherAmountThreshold :: int
  sc_slippageBps :: nat

record swap_env =
  priorityFee :: "js_error + nat"
  computeSwap :: "int \<Rightarrow> nat \<Rightarrow> js_error + swapCompute"
  swapTransactions :: "nat \<Rightarrow> swapCompute \<Rightarrow> js_error + string list"
  signTransaction :: "string \<Rightarrow> js_error + string"
  sendRawTransaction :: "string \<Rightarrow> js_error + string"
  confirmTransaction :: "string \<Rightarrow> js_error + unit"

fun send_all :: "swap_env \<Rightarrow> string list \<Rightarrow> string option \<Rightarrow> js_error + string option" where
  "send_all env [] lastTxId = Inr lastTxId"
| "send_all env (tx # txs) lastTxId =
     (case signTransaction env tx of
        Inl e \<Rightarrow> Inl e
      | Inr signedTx \<Rightarrow>
          (case sendRawTransaction env signedTx of
             Inl e \<Rightarrow> Inl e
           | Inr txId \<Rightarrow>
               (case confirmTransaction env txId of
                  Inl e \<Rightarrow> Inl e
                | Inr u \<Rightarrow> send_all env txs (Some txId))))"

text \<open>
  The block inside the \<^verbatim>\<open>try\<close> of \<^verbatim>\<open>swapSolToRay\<close>; the function's catch logs
  and rethrows the error it caught.
\<close>

definition swapSolToRay_steps :: "swap_env \<Rightarrow> jsnum \<Rightarrow> js_error + string option" where
  "swapSolToRay_steps env amountSol =
     (let amountInLamports = \<lfloor>amountSol * 1000000000\<rfloor> in
      and_then (priorityFee env) (\<lambda>fee.
      and_then (computeSwap env amountInLamports 50) (\<lambda>swapResponse.
      and_then (swapTransactions env fee swapResponse) (\<lambda>allTransactions.
      send_all env allTransactions None))))"

definition swapSolToRay :: "swap_env \<Rightarrow> jsnum \<Rightarrow> js_error + string option" where
  "swapSolToRay env amountSol =
     try_catch (swapSolToRay_steps env amountSol) (\<lambda>error. Inl error)"

definition getEstimatedRayOutput :: "swap_env \<Rightarrow> jsnum \<Rightarrow> jsnum" where
  "getEstimatedRayOutput env amountSol =
     (case computeSwap env \<lfloor>amountSol * 1000000000\<rfloor> 50 of
        Inl error \<Rightarrow> 0
      | Inr swapResponse \<Rightarrow> real_of_int (sc_outputAmount swapResponse) / 1000000000)"

subsection \<open>rayStaking.ts\<close>

record poolInfo =
  pi_mintA_address :: string
  pi_mintA_decimals :: nat
  pi_mintB_address :: string
  pi_mintB_decimals :: nat

record tokenAccount =
  ta_mint :: string
  ta_amount :: nat

record raydium =
  tokenAccountRawInfos :: "tokenAccount list"

record pairAmount =
  pa_maxAnotherAmount :: jsnum
  pa_minAnotherAmount :: jsnum

record farmInfo =
  fi_lpMint :: string

text \<open>
  The liquidity SDK, the RPC node and the wallet as the staking helpers use them.
  \<open>getParsedAccountInfo\<close> gives the \<^verbatim>\<open>uiAmount\<close> of an account's parsed token amount,
  \<open>None\<close> where the account is not parsed, has no token amount, or the amount is null;
  \<open>confirm\<close> gives the \<^verbatim>\<open>err\<close> of the confirmation, if any. \<open>addLiquidity\<close> is the
  outcome of \<^verbatim>\<open>addRayUsdcLiquidity\<close> for an amount of RAY.
\<close>

record sdk_env =
  initSdk :: "js_error + raydium"
  fetchPoolById :: "string \<Rightarrow> js_error + poolInfo list"
  computePairAmount :: "poolInfo \<Rightarrow> jsnum \<Rightarrow> js_error + pairAmount"
  getTokenAccountsByOwner :: "string \<Rightarrow> js_error + string list"
  getParsedAccountInfo :: "string \<Rightarrow> js_error + jsnum option"
  fetchFarmInfoById :: "string \<Rightarrow> js_error + farmInfo list"
  farm_deposit :: "farmInfo \<Rightarrow> nat \<Rightarrow> js_error + string"
  wallet_sign :: "string \<Rightarrow> js_error + string"
  sendTransaction :: "string \<Rightarrow> js_error + string"
  confirm :: "string \<Rightarrow> js_error + string option"
  addLiquidity :: "jsnum \<Rightarrow> js_error + string"

definition RAY_USDC_POOL :: string where
  "RAY_USDC_POOL = ''6UmmUiYoBjSrhakAobJw8BvkmJtDVxaeBtbt7rxWo1mg''"

definition RAY_USDC_FARM :: string where
  "RAY_USDC_FARM = ''CHYrUBX2RKX8iBg7gYTkccoGNBzP44LdaazMHCLcdEgS''"

definition RAY_MINT :: string where
  "RAY_MINT = ''4k3Dyjzvzp8eMZWUXbBCjEvwSkkk59S5iCNLY3QrkX6R''"

text \<open>The loop that adds up \<^verbatim>\<open>uiAmount || 0\<close> over the accounts of an owner.\<close>

fun sum_uiAmounts :: "sdk_env \<Rightarrow> string list \<Rightarrow> jsnum \<Rightarrow> js_error + jsnum" where
  "sum_uiAmounts env [] totalBalance = Inr totalBalance"
| "sum_uiAmounts env (account # accounts) totalBalance =
     (case getParsedAccountInfo env account of
        Inl e \<Rightarrow> Inl e
      | Inr parsed \<Rightarrow>
          sum_uiAmounts env accounts
            (totalBalance + (case parsed of None \<Rightarrow> 0 | Some uiAmount \<Rightarrow> uiAmount)))"

record usdc_check =
  hasEnoughUsdc :: bool
  requiredUsdc :: jsnum
  usdcBalance :: jsnum

text \<open>
  The block inside the \<^verbatim>\<open>try\<close> of \<^verbatim>\<open>checkUsdcBalanceForLiquidity\<close>. With no pool in
  the answer, \<^verbatim>\<open>data[0]\<close> is undefined and reading its mint throws a TypeError.
\<close>

definition checkUsdcBalanceForLiquidity_steps :: "sdk_env \<Rightarrow> jsnum \<Rightarrow> js_error + usdc_check" where
  "checkUsdcBalanceForLiquidity_steps env rayAmount =
     and_then (initSdk env) (\<lambda>raydium.
     and_then (fetchPoolById env RAY_USDC_POOL) (\<lambda>data.
       case data of
         [] \<Rightarrow> Inl (Error ''TypeError'')
       | poolInfo # rest \<Rightarrow>
           and_then (computePairAmount env poolInfo rayAmount) (\<lambda>pairAmountResult.
           and_then
             (case find (\<lambda>a. ta_mint a = pi_mintB_address poolInfo)
                        (tokenAccountRawInfos raydium) of
                Some usdcTokenAccount \<Rightarrow>
                  Inr (real (ta_amount usdcTokenAccount) / 10 ^ pi_mintB_decimals poolInfo)
              | None \<Rightarrow>
                  and_then (getTokenAccountsByOwner env (pi_mintB_address poolInfo))
                    (\<lambda>usdcAccounts. sum_uiAmounts env usdcAccounts 0))
             (\<lambda>balance.
                Inr \<lparr>hasEnoughUsdc = (pa_maxAnotherAmount pairAmountResult \<le> balance),
                     requiredUsdc = pa_maxAnotherAmount pairAmountResult,
                     usdcBalance = balance\<rparr>))))"

definition checkUsdcBalanceForLiquidity :: "sdk_env \<Rightarrow> jsnum \<Rightarrow> js_error + usdc_check" where
  "checkUsdcBalanceForLiquidity env rayAmount =
     try_catch (checkUsdcBalanceForLiquidity_steps env rayAmount)
       (\<lambda>error. Inr \<lparr>hasEnoughUsdc = False, requiredUsdc = 0, usdcBalance = 0\<rparr>)"

record token_balance =
  tb_balance :: jsnum
  tb_found :: bool

definition getRayBalance :: "sdk_env \<Rightarrow> js_error + token_balance" where
  "getRayBalance env =
     try_catch
       (and_then (getTokenAccountsByOwner env RAY_MINT) (\<lambda>tokenAccounts.
          if tokenAccounts = [] then Inr \<lparr>tb_balance = 0, tb_found = False\<rparr>
          else and_then (sum_uiAmounts env tokenAccounts 0)
                 (\<lambda>totalBalance. Inr \<lparr>tb_balance = totalBalance, tb_found = True\<rparr>)))
       (\<lambda>error. Inr \<lparr>tb_balance = 0, tb_found = False\<rparr>)"

text \<open>
  \<^verbatim>\<open>stakeRayToFarm\<close>. Its two branches, for a versioned and for a legacy transaction,
  both sign, send, confirm and throw on a confirmation error; they are one path here.
\<close>

definition stakeRayToFarm :: "sdk_env \<Rightarrow> js_error + string" where
  "stakeRayToFarm env =
     try_catch
       (and_then (initSdk env) (\<lambda>raydium.
        and_then (fetchFarmInfoById env RAY_USDC_FARM) (\<lambda>farms.
          case farms of
            [] \<Rightarrow> Inl (Error ''Failed to fetch farm information'')
          | farmInfo # rest \<Rightarrow>
              (case find (\<lambda>a. ta_mint a = fi_lpMint farmInfo) (tokenAccountRawInfos raydium) of
                 None \<Rightarrow> Inl (Error ''No LP tokens found for this farm'')
               | Some lpTokenAccount \<Rightarrow>
                   if ta_amount lpTokenAccount = 0
                   then Inl (Error ''No LP tokens found for this farm'')
                   else
                     and_then (farm_deposit env farmInfo (ta_amount lpTokenAccount)) (\<lambda>transaction.
                     and_then (wallet_sign env transaction) (\<lambda>signedTx.
                     and_then (sendTransaction env signedTx) (\<lambda>txId.
                     and_then (confirm env txId) (\<lambda>err.
                       case err of
                         Some e \<Rightarrow> Inl (Error (''Transaction failed: '' @ e))
                       | None \<Rightarrow> Inr txId))))))))
       (\<lambda>error. Inl error)"

section \<open>The client: the investment modal\<close>

text \<open>
  The state of the modal when the mutation runs: the parsed amount, the opportunity,
  the auto-stake box, the estimate kept from the last quote (null until one arrives)
  and whether public key, signer and connection are all present.
\<close>

record modal_state =
  amountValue :: jsnum
  opportunity :: yieldOpportunity
  autoStake :: bool
  estimatedRayAmount :: "jsnum option"
  walletReady :: bool

record client_env =
  swap :: swap_env
  sdk :: sdk_env
  toFixed2 :: "jsnum \<Rightarrow> string"

definition isSolRayPair :: "yieldOpportunity \<Rightarrow> bool" where
  "isSolRayPair opp =
     (length (o_tokenPair opp) = 2 \<and> ''SOL'' \<in> set (o_tokenPair opp) \<and>
      ''RAY'' \<in> set (o_tokenPair opp))"

text \<open>The JSON body the modal posts to /api/portfolio/invest.\<close>

record invest_request =
  r_opportunityId :: int
  r_amount :: jsnum
  r_token :: string

text \<open>
  A toast is a notice, given by its title, or the offer \<^verbatim>\<open>Keep RAY\<close>, whose button
  posts the request it carries.
\<close>

datatype toast = Notice string | KeepRay invest_request

definition isLiquidityError :: "string \<Rightarrow> bool" where
  "isLiquidityError errorMessage =
     (str_includes errorMessage ''liquidity'' \<or> str_includes errorMessage ''USDC'' \<or>
      str_includes errorMessage ''amounts'' \<or> str_includes errorMessage ''RAY token'')"

text \<open>
  The amount of RAY taken on to the liquidity stage:
  \<^verbatim>\<open>Math.min(rayBalance, estimatedRayAmount || amountValue)\<close>.
\<close>

definition actualRayAmount :: "modal_state \<Rightarrow> jsnum \<Rightarrow> jsnum" where
  "actualRayAmount st rayBalance =
     min rayBalance
         (case estimatedRayAmount st of
            None \<Rightarrow> amountValue st
          | Some e \<Rightarrow> if e = 0 then amountValue st else e)"

text \<open>
  The block inside the inner \<^verbatim>\<open>try\<close>, run when auto-stake is on: the toasts shown and
  the staking transaction, or the error thrown.
\<close>

definition auto_stake_steps :: "client_env \<Rightarrow> modal_state \<Rightarrow> toast list \<times> (js_error + string)" where
  "auto_stake_steps env st =
     (case getRayBalance (sdk env) of
        Inl e \<Rightarrow> ([], Inl e)
      | Inr ray \<Rightarrow>
          if \<not> tb_found ray \<or> tb_balance ray \<le> 0
          then ([Notice ''RAY tokens not found''], Inl (Error ''RAY tokens not found in wallet''))
          else
            (case checkUsdcBalanceForLiquidity (sdk env) (actualRayAmount st (tb_balance ray)) of
               Inl e \<Rightarrow> ([], Inl e)
             | Inr chk \<Rightarrow>
                 if \<not> hasEnoughUsdc chk
                 then ([Notice ''Insufficient USDC balance''],
                       Inl (Error (''Insufficient USDC balance. Required: '' @
                                   toFixed2 env (requiredUsdc chk) @ '' USDC'')))
                 else
                   (case addLiquidity (sdk env) (actualRayAmount st (tb_balance ray)) of
                      Inl e \<Rightarrow> ([Notice ''Adding liquidity''], Inl e)
                    | Inr liquidityTxId \<Rightarrow>
                        (case stakeRayToFarm (sdk env) of
                           Inl e \<Rightarrow>
                             ([Notice ''Adding liquidity'', Notice ''Liquidity added'',
                               Notice ''Staking LP tokens''], Inl e)
                         | Inr stakeTxId \<Rightarrow>
                             ([Notice ''Adding liquidity'', Notice ''Liquidity added'',
                               Notice ''Staking LP tokens'', Notice ''Staking successful''],
                              Inr stakeTxId)))))"

text \<open>The toast of the inner \<^verbatim>\<open>catch (stakeError)\<close>.\<close>

definition stake_error_toast :: "modal_state \<Rightarrow> js_error \<Rightarrow> toast" where
  "stake_error_toast st stakeError =
     (if isLiquidityError (err_message stakeError)
      then KeepRay \<lparr>r_opportunityId = o_id (opportunity st), r_amount = amountValue st,
                    r_token = ''RAY''\<rparr>
      else Notice ''Staking failed'')"

text \<open>
  \<^verbatim>\<open>investMutation.mutationFn\<close>: the toasts shown, and either the error thrown before
  anything is posted or the request posted to /api/portfolio/invest, whose response is
  the mutation's value.
\<close>

record mutation_result =
  mr_toasts :: "toast list"
  mr_outcome :: "js_error + invest_request"

definition swap_failed :: js_error where
  "swap_failed = Error ''Failed to convert SOL to RAY. Please try again.''"

definition mutationFn :: "client_env \<Rightarrow> modal_state \<Rightarrow> mutation_result" where
  "mutationFn env st =
     (if isSolRayPair (opportunity st)
      then
        if \<not> walletReady st then \<lparr>mr_toasts = [], mr_outcome = Inl swap_failed\<rparr>
        else
          (case swapSolToRay (swap env) (amountValue st) of
             Inl error \<Rightarrow>
               \<lparr>mr_toasts = [Notice ''Processing investment''], mr_outcome = Inl swap_failed\<rparr>
           | Inr txId \<Rightarrow>
               \<lparr>mr_toasts =
                  [Notice ''Processing investment'', Notice ''Conversion successful''] @
                  (if autoStake st
                   then (case auto_stake_steps env st of
                           (ts, Inl stakeError) \<Rightarrow> ts @ [stake_error_toast st stakeError]
                         | (ts, Inr stakeTxId) \<Rightarrow> ts)
                   else []),
                mr_outcome =
                  Inr \<lparr>r_opportunityId = o_id (opportunity st), r_amount = amountValue st,
                       r_token = ''RAY''\<rparr>\<rparr>)
      else
        \<lparr>mr_toasts = [],
         mr_outcome =
           Inr \<lparr>r_opportunityId = o_id (opportunity st), r_amount = amountValue st,
                r_token = ''SOL''\<rparr>\<rparr>)"

text \<open>
  From the click to the store: the request the mutation posts, if it posts one, is
  handled by the server's route.
\<close>

definition body_of_request :: "invest_request \<Rightarrow> invest_body" where
  "body_of_request req =
     \<lparr>ib_userId = None, ib_opportunityId = Some (r_opportunityId req),
      ib_amount = Some (r_amount req), ib_depositDate = None, ib_token = Some (r_token req),
      ib_active = None\<rparr>"

definition investWorkflow ::
  "client_env \<Rightarrow> modal_state \<Rightarrow> (string \<Rightarrow> js_error + jsnum) \<Rightarrow> string \<Rightarrow> date \<Rightarrow> string \<Rightarrow>
     server \<Rightarrow> server" where
  "investWorkflow env st getBalance sessionID now hash srv =
     (case mr_outcome (mutationFn env st) of
        Inl error \<Rightarrow> srv
      | Inr req \<Rightarrow> fst (invest_route getBalance srv sessionID (body_of_request req) now hash))"

section \<open>The client: AI recommendations\<close>

text \<open>
  The three queries of the component are enabled by \<^verbatim>\<open>connected && isSubscribed\<close>;
  the auto-invest button shows a toast, opens the subscription modal or posts to
  /api/ai/auto-invest.
\<close>

definition ai_queries_enabled :: "bool \<Rightarrow> bool \<Rightarrow> bool" where
  "ai_queries_enabled isConnected isSubscribed = (isConnected \<and> isSubscribed)"

datatype auto_invest_step = WalletNotConnected | OpenSubscriptionModal | PostAutoInvest jsnum

definition handleAutoInvest :: "bool \<Rightarrow> bool \<Rightarrow> jsnum \<Rightarrow> auto_invest_step" where
  "handleAutoInvest isConnected isSubscribed autoInvestAmount =
     (if \<not> isConnected then WalletNotConnected
      else if \<not> isSubscribed then OpenSubscriptionModal
      else PostAutoInvest autoInvestAmount)"

section \<open>The invariant of the users table\<close>

text \<open>
  What the unique index on \<^verbatim>\<open>users.wallet_address\<close> keeps: no two user rows carry the
  same wallet address.
\<close>

definition wallet_unique :: "db \<Rightarrow> bool" where
  "wallet_unique d = distinct (map u_walletAddress (users d))"

section \<open>Concrete stores and inputs\<close>

text \<open>A store with one registered wallet and one SOL/RAY opportunity.\<close>

definition example_db :: db where
  "example_db =
     \<lparr>users = [\<lparr>u_id = 1, u_walletAddress = ''WalletA'', u_username = None, u_email = None,
                 u_createdAt = 0, u_lastLogin = None\<rparr>],
      preferences = [],
      opportunities = [\<lparr>o_id = 1, o_name = ''RAY-SOL'', o_protocol = ''Raydium'', o_apy = 12,
                         o_riskLevel = ''medium'', o_tokenPair = [''SOL'', ''RAY''],
                         o_depositFee = 0\<rparr>],
      portfolios = [], transactions = [], subscriptions = [],
      users_seq = 2, preferences_seq = 1, portfolios_seq = 1, transactions_seq = 1,
      subscriptions_seq = 1\<rparr>"

definition example_invest :: insertUserPortfolio where
  "example_invest =
     \<lparr>ip_userId = 1, ip_opportunityId = 1, ip_amount = 1239 / 1000, ip_depositDate = 100,
      ip_token = ''RAY'', ip_active = True\<rparr>"

text \<open>
  A swap venue that quotes 50 RAY for 1 SOL with a least output of 49.75 RAY, builds
  one transaction and confirms it; and one whose quote request fails.
\<close>

definition quoting_venue :: swap_env where
  "quoting_venue =
     \<lparr>priorityFee = Inr 1000,
      computeSwap = (\<lambda>amount bps.
        Inr \<lparr>sc_inputAmount = amount, sc_outputAmount = 50000000000,
             sc_otherAmountThreshold = 49750000000, sc_slippageBps = bps\<rparr>),
      swapTransactions = (\<lambda>fee q. Inr [''tx1'']),
      signTransaction = (\<lambda>tx. Inr tx),
      sendRawTransaction = (\<lambda>tx. Inr ''sig1''),
      confirmTransaction = (\<lambda>sig. Inr ())\<rparr>"

definition failing_venue :: swap_env where
  "failing_venue = quoting_venue\<lparr>computeSwap := (\<lambda>amount bps. Inl (Error ''Network Error''))\<rparr>"

text \<open>
  A wallet holding 50 RAY, 5 USDC and 7 LP tokens, a pool that asks 10 USDC for the
  RAY offered, and a farm whose deposit is sent but comes back with a confirmation
  error.
\<close>

definition example_pool :: poolInfo where
  "example_pool =
     \<lparr>pi_mintA_address = RAY_MINT, pi_mintA_decimals = 6, pi_mintB_address = ''USDCMINT'',
      pi_mintB_decimals = 6\<rparr>"

definition short_of_usdc :: sdk_env where
  "short_of_usdc =
     \<lparr>initSdk = Inr \<lparr>tokenAccountRawInfos =
                       [\<lparr>ta_mint = ''USDCMINT'', ta_amount = 5000000\<rparr>,
                        \<lparr>ta_mint = ''LPMINT'', ta_amount = 7\<rparr>]\<rparr>,
      fetchPoolById = (\<lambda>i. Inr [example_pool]),
      computePairAmount = (\<lambda>pool amount.
        Inr \<lparr>pa_maxAnotherAmount = 10, pa_minAnotherAmount = 9\<rparr>),
      getTokenAccountsByOwner = (\<lambda>mint. Inr [''account1'']),
      getParsedAccountInfo = (\<lambda>account. Inr (Some 50)),
      fetchFarmInfoById = (\<lambda>i. Inr [\<lparr>fi_lpMint = ''LPMINT''\<rparr>]),
      farm_deposit = (\<lambda>farm amount. Inr ''deposit''),
      wallet_sign = (\<lambda>tx. Inr tx),
      sendTransaction = (\<lambda>tx. Inr ''sig2''),
      confirm = (\<lambda>sig. Inr (Some ''InstructionError'')),
      addLiquidity = (\<lambda>amount. Inr ''sig3'')\<rparr>"

definition enough_usdc :: sdk_env where
  "enough_usdc =
     short_of_usdc\<lparr>computePairAmount := (\<lambda>pool amount.
        Inr \<lparr>pa_maxAnotherAmount = 4, pa_minAnotherAmount = 3\<rparr>)\<rparr>"

definition sdk_down :: sdk_env where
  "sdk_down = short_of_usdc\<lparr>initSdk := Inl (Error ''fetch failed'')\<rparr>"

definition example_state :: modal_state where
  "example_state =
     \<lparr>amountValue = 1,
      opportunity = \<lparr>o_id = 1, o_name = ''RAY-SOL'', o_protocol = ''Raydium'', o_apy = 12,
                      o_riskLevel = ''medium'', o_tokenPair = [''SOL'', ''RAY''],
                      o_depositFee = 0\<rparr>,
      autoStake = False, estimatedRayAmount = Some 50, walletReady = True\<rparr>"

definition example_client :: "swap_env \<Rightarrow> sdk_env \<Rightarrow> client_env" where
  "example_client venue s = \<lparr>swap = venue, sdk = s, toFixed2 = (\<lambda>x. ''10.00'')\<rparr>"

text \<open>
  A server over the example store with one connected session of user 1, an RPC node
  that reports one SOL for every address, and a chat service whose completion always
  answers.
\<close>

definition example_server :: server where
  "example_server =
     \<lparr>store = example_db,
      connectedWallets = [''session1'' \<mapsto> \<lparr>wd_address = ''WalletA'', wd_userId = Some 1\<rparr>],
      userChats = Map.empty\<rparr>"

definition example_rpc :: "string \<Rightarrow> js_error + jsnum" where
  "example_rpc address = Inr 1000000000"

definition example_openai :: openai_env where
  "example_openai =
     \<lparr>client_available = True,
      chat_completion = (\<lambda>messages. Inr ''Marinade staking pays 7% APY.''),
      intent_completion = (\<lambda>message opps. no_intent),
      getSystemPrompt = ''You are SolSeeker'',
      showNumber = (\<lambda>x. ''12'')\<rparr>"

text \<open>
  The example store after user 1 has paid, and what a concurrent request does that
  registers the wallet \<^verbatim>\<open>WalletB\<close> first.
\<close>

definition example_subscription :: solanaSubscription where
  "example_subscription =
     \<lparr>s_id = 1, s_userId = 1, s_subscriptionDate = 50, s_transactionHash = Some ''h1'',
      s_amount = 10, s_currency = ''USDC'', s_isActive = True\<rparr>"

definition subscribed_server :: server where
  "subscribed_server =
     example_server\<lparr>store := example_db\<lparr>subscriptions := [example_subscription],
                                         subscriptions_seq := 2\<rparr>\<rparr>"

definition example_subscribe_body :: subscribe_body where
  "example_subscribe_body =
     \<lparr>sb_walletAddress = Some ''WalletA'', sb_transactionHash = Some ''h2'',
      sb_amount = Some 10, sb_currency = None\<rparr>"

definition registers_WalletB :: "db \<Rightarrow> db" where
  "registers_WalletB d =
     d\<lparr>users := users d @
                  [\<lparr>u_id = users_seq d, u_walletAddress = ''WalletB'', u_username = None,
                    u_email = None, u_createdAt = 150, u_lastLogin = Some 150\<rparr>],
       users_seq := users_seq d + 1\<rparr>"

section \<open>Properties of the storage layer\<close>

lemma parseInt_abc: "parseInt ''abc'' = None"
  by (simp add: parseInt_def is_ws_def is_digit_def digit_val_def)

lemma parseInt_1: "parseInt ''1'' = Some 1"
  by (simp add: parseInt_def is_ws_def is_digit_def digit_val_def)

lemma opportunity_exists_find:
  "opportunity_exists d i \<Longrightarrow> \<exists>opp. find (\<lambda>opp. o_id opp = i) (opportunities d) = Some opp"
  unfolding opportunity_exists_def
  by (cases "find (\<lambda>opp. o_id opp = i) (opportunities d)") (auto simp: find_None_iff)

text \<open>
  C7, as stated, for every call: it fails where the guard on the user id throws before
  any write. The call with the user id \<^verbatim>\<open>"abc"\<close> returns the error
  \<^verbatim>\<open>Invalid user ID\<close> and leaves the store as it was, with no portfolio row and no
  transaction row.
\<close>

theorem createInvestment_invalid_user_counterexample:
  "createInvestment example_db ''abc'' example_invest 200 ''ff'' =
     (example_db, Inl (Error ''Invalid user ID''))"
  by (simp add: createInvestment_def parseInt_abc)

lemma decimal_20_2_example: "decimal_20_2 (1239 / 1000) = 124 / 100"
  by (simp add: decimal_20_2_def)

lemma fits_decimal_20_2_example: "fits_decimal_20_2 (1239 / 1000)"
  by (simp add: fits_decimal_20_2_def decimal_20_2_example)

lemma beyond_decimal_20_2: "\<not> fits_decimal_20_2 (10 ^ 18)"
  by (simp add: fits_decimal_20_2_def decimal_20_2_def)

text \<open>
  C7, amended: a call to \<^verbatim>\<open>createInvestment\<close> whose user id string parses to the id of
  an existing user, for an existing opportunity and an amount the \<^verbatim>\<open>DECIMAL(20,2)\<close>
  columns can hold, returns normally and appends exactly one portfolio row and one
  transaction row with that user, opportunity and token; both rows carry the same
  amount, the amount given rounded to two decimals; the transaction row has type
  \<^verbatim>\<open>invest\<close> and status \<^verbatim>\<open>completed\<close>. The orchestration step reached is no input of
  the method.
\<close>

theorem createInvestment_writes_both_rows:
  assumes "parseInt userId = Some n"
    and "user_exists d n"
    and "opportunity_exists d (ip_opportunityId data)"
    and "fits_decimal_20_2 (ip_amount data)"
  shows "isl (snd (createInvestment d userId data now hash)) = False \<and>
         portfolios (fst (createInvestment d userId data now hash)) =
           portfolios d @
             [\<lparr>p_id = portfolios_seq d, p_userId = n, p_opportunityId = ip_opportunityId data,
               p_amount = decimal_20_2 (ip_amount data), p_depositDate = ip_depositDate data,
               p_token = ip_token data, p_active = ip_active data\<rparr>] \<and>
         transactions (fst (createInvestment d userId data now hash)) =
           transactions d @
             [\<lparr>t_id = transactions_seq d, t_userId = n, t_opportunityId = ip_opportunityId data,
               t_transactionType = ''invest'', t_amount = decimal_20_2 (ip_amount data),
               t_token = ip_token data, t_transactionDate = now, t_status = ''completed'',
               t_transactionHash = Some hash\<rparr>]"
proof -
  obtain opp where "find (\<lambda>opp. o_id opp = ip_opportunityId data) (opportunities d) = Some opp"
    using opportunity_exists_find [OF assms(3)] by blast
  with assms show ?thesis
    by (simp add: createInvestment_def prisma_userPortfolio_create_def
        prisma_transaction_create_def prisma_yieldOpportunity_findUnique_def
        user_exists_def opportunity_exists_def Let_def)
qed

theorem createInvestment_writes_both_rows_witness:
  "parseInt ''1'' = Some 1 \<and> user_exists example_db 1 \<and>
   opportunity_exists example_db (ip_opportunityId example_invest) \<and>
   fits_decimal_20_2 (ip_amount example_invest) \<and>
   ip_amount example_invest = 1239 / 1000 \<and>
   isl (snd (createInvestment example_db ''1'' example_invest 200 ''ff'')) = False \<and>
   portfolios (fst (createInvestment example_db ''1'' example_invest 200 ''ff'')) =
     [\<lparr>p_id = 1, p_userId = 1, p_opportunityId = 1, p_amount = 124 / 100, p_depositDate = 100,
       p_token = ''RAY'', p_active = True\<rparr>] \<and>
   transactions (fst (createInvestment example_db ''1'' example_invest 200 ''ff'')) =
     [\<lparr>t_id = 1, t_userId = 1, t_opportunityId = 1, t_transactionType = ''invest'',
       t_amount = 124 / 100, t_token = ''RAY'', t_transactionDate = 200,
       t_status = ''completed'', t_transactionHash = Some ''ff''\<rparr>]"
proof -
  have h1: "parseInt ''1'' = Some 1"
    by (rule parseInt_1)
  have h2: "user_exists example_db 1"
    by (simp add: user_exists_def example_db_def)
  have h3: "opportunity_exists example_db (ip_opportunityId example_invest)"
    by (simp add: opportunity_exists_def example_db_def example_invest_def)
  have h4: "fits_decimal_20_2 (ip_amount example_invest)"
    by (simp add: example_invest_def fits_decimal_20_2_example)
  have r: "decimal_20_2 (ip_amount example_invest) = 124 / 100"
    by (simp add: example_invest_def decimal_20_2_example)
  show ?thesis
    using h1 h2 h3 h4 createInvestment_writes_both_rows [OF h1 h2 h3 h4, of 200 "''ff''"]
    by (simp add: r) (simp add: example_db_def example_invest_def)
qed

section \<open>Properties of the staking helpers\<close>

lemma try_catch_rethrow: "try_catch m (\<lambda>error. Inl error) = m"
  by (cases m) (simp_all add: try_catch_def)

text \<open>
  C10: \<^verbatim>\<open>checkUsdcBalanceForLiquidity\<close> returns for every input and never throws; when
  any step inside its \<^verbatim>\<open>try\<close> fails, what it returns is
  \<^verbatim>\<open>{ hasEnoughUsdc: false, requiredUsdc: 0, usdcBalance: 0 }\<close>, so the caller sees an
  insufficient balance and no error.
\<close>

theorem checkUsdcBalanceForLiquidity_total:
  "isl (checkUsdcBalanceForLiquidity env rayAmount) = False \<and>
   (isl (checkUsdcBalanceForLiquidity_steps env rayAmount) \<longrightarrow>
      checkUsdcBalanceForLiquidity env rayAmount =
        Inr \<lparr>hasEnoughUsdc = False, requiredUsdc = 0, usdcBalance = 0\<rparr>)"
  by (cases "checkUsdcBalanceForLiquidity_steps env rayAmount")
     (simp_all add: checkUsdcBalanceForLiquidity_def try_catch_def)

lemma sdk_down_steps: "isl (checkUsdcBalanceForLiquidity_steps sdk_down 50)"
  by (simp add: checkUsdcBalanceForLiquidity_steps_def sdk_down_def and_then_def)

theorem checkUsdcBalanceForLiquidity_total_witness:
  "isl (checkUsdcBalanceForLiquidity_steps sdk_down 50) \<and>
   checkUsdcBalanceForLiquidity sdk_down 50 =
     Inr \<lparr>hasEnoughUsdc = False, requiredUsdc = 0, usdcBalance = 0\<rparr>"
  using checkUsdcBalanceForLiquidity_total [of sdk_down 50] sdk_down_steps by simp

section \<open>Properties of the investment workflow\<close>

lemma mutationFn_after_swap:
  assumes "isSolRayPair (opportunity st)" and "walletReady st"
    and "swapSolToRay (swap env) (amountValue st) = Inr txId"
  shows "mr_outcome (mutationFn env st) =
           Inr \<lparr>r_opportunityId = o_id (opportunity st), r_amount = amountValue st,
                r_token = ''RAY''\<rparr>"
  using assms by (simp add: mutationFn_def)

lemma mutationFn_swap_throws:
  assumes "isSolRayPair (opportunity st)"
    and "isl (swapSolToRay (swap env) (amountValue st))"
  shows "mutationFn env st =
           \<lparr>mr_toasts = (if walletReady st then [Notice ''Processing investment''] else []),
            mr_outcome = Inl swap_failed\<rparr>"
  using assms
  by (cases "swapSolToRay (swap env) (amountValue st)") (simp_all add: mutationFn_def)

lemma example_pair: "isSolRayPair (opportunity example_state)"
  by (simp add: isSolRayPair_def example_state_def)

lemma quoting_venue_swap: "swapSolToRay quoting_venue 1 = Inr (Some ''sig1'')"
  by (simp add: swapSolToRay_def swapSolToRay_steps_def try_catch_def and_then_def
      quoting_venue_def)

lemma failing_venue_steps: "swapSolToRay_steps failing_venue 1 = Inl (Error ''Network Error'')"
  by (simp add: swapSolToRay_steps_def and_then_def failing_venue_def quoting_venue_def)

lemma failing_venue_swap: "swapSolToRay failing_venue 1 = Inl (Error ''Network Error'')"
  by (simp add: swapSolToRay_def try_catch_rethrow failing_venue_steps)

text \<open>
  C2, as stated: it fails. The venue quotes 50 RAY for 1 SOL and allows the output to
  fall to 49.75 RAY; the swap succeeds with auto-stake off; the amount posted for the
  position is 1, the amount of SOL entered, which is below every output the swap may
  have delivered.
\<close>

theorem recorded_amount_is_not_swap_output_counterexample:
  "swapSolToRay (swap (example_client quoting_venue short_of_usdc)) (amountValue example_state) =
     Inr (Some ''sig1'') \<and>
   getEstimatedRayOutput (swap (example_client quoting_venue short_of_usdc))
     (amountValue example_state) = 50 \<and>
   mr_outcome (mutationFn (example_client quoting_venue short_of_usdc) example_state) =
     Inr \<lparr>r_opportunityId = 1, r_amount = 1, r_token = ''RAY''\<rparr> \<and>
   (1 :: real) < 50 - 50 * (50 / 10000)"
proof -
  have a: "amountValue example_state = 1"
    by (simp add: example_state_def)
  have s: "swapSolToRay (swap (example_client quoting_venue short_of_usdc))
             (amountValue example_state) = Inr (Some ''sig1'')"
    by (simp add: a example_client_def quoting_venue_swap)
  have q: "getEstimatedRayOutput (swap (example_client quoting_venue short_of_usdc))
             (amountValue example_state) = 50"
    by (simp add: a example_client_def getEstimatedRayOutput_def quoting_venue_def)
  have w: "walletReady example_state"
    by (simp add: example_state_def)
  have m: "mr_outcome (mutationFn (example_client quoting_venue short_of_usdc) example_state) =
             Inr \<lparr>r_opportunityId = 1, r_amount = 1, r_token = ''RAY''\<rparr>"
    using mutationFn_after_swap [OF example_pair w s] by (simp add: example_state_def)
  show ?thesis
    using s q m by simp
qed

text \<open>
  C2, amended: for every successful swap with auto-stake off, the amount posted to
  /api/portfolio/invest is the amount the user entered, with the token RAY, whatever
  the venue quoted; only the two notices of the swap are shown.
\<close>

theorem recorded_amount_is_entered_amount:
  assumes "isSolRayPair (opportunity st)" and "walletReady st"
    and "swapSolToRay (swap env) (amountValue st) = Inr txId"
    and "\<not> autoStake st"
  shows "mutationFn env st =
           \<lparr>mr_toasts = [Notice ''Processing investment'', Notice ''Conversion successful''],
            mr_outcome =
              Inr \<lparr>r_opportunityId = o_id (opportunity st), r_amount = amountValue st,
                   r_token = ''RAY''\<rparr>\<rparr>"
  using assms by (simp add: mutationFn_def)

theorem recorded_amount_is_entered_amount_witness:
  "isSolRayPair (opportunity example_state) \<and> walletReady example_state \<and>
   swapSolToRay (swap (example_client quoting_venue short_of_usdc)) (amountValue example_state) =
     Inr (Some ''sig1'') \<and>
   \<not> autoStake example_state \<and>
   mutationFn (example_client quoting_venue short_of_usdc) example_state =
     \<lparr>mr_toasts = [Notice ''Processing investment'', Notice ''Conversion successful''],
      mr_outcome = Inr \<lparr>r_opportunityId = 1, r_amount = 1, r_token = ''RAY''\<rparr>\<rparr>"
proof -
  have w: "walletReady example_state"
    by (simp add: example_state_def)
  have s: "swapSolToRay (swap (example_client quoting_venue short_of_usdc))
             (amountValue example_state) = Inr (Some ''sig1'')"
    by (simp add: example_state_def example_client_def quoting_venue_swap)
  have n: "\<not> autoStake example_state"
    by (simp add: example_state_def)
  show ?thesis
    using example_pair w s n recorded_amount_is_entered_amount [OF example_pair w s n]
    by (simp add: example_state_def)
qed





lemma enough_usdc_ray: "getRayBalance enough_usdc = Inr \<lparr>tb_balance = 50, tb_found = True\<rparr>"
  by (simp add: getRayBalance_def try_catch_def and_then_def enough_usdc_def short_of_usdc_def)


lemma enough_usdc_check:
  "checkUsdcBalanceForLiquidity enough_usdc a =
     Inr \<lparr>hasEnoughUsdc = True, requiredUsdc = 4, usdcBalance = 5\<rparr>"
  by (simp add: checkUsdcBalanceForLiquidity_def checkUsdcBalanceForLiquidity_steps_def
      try_catch_def and_then_def enough_usdc_def short_of_usdc_def example_pool_def)

lemma enough_usdc_stake:
  "stakeRayToFarm enough_usdc = Inl (Error ''Transaction failed: InstructionError'')"
  by (simp add: stakeRayToFarm_def try_catch_def and_then_def enough_usdc_def short_of_usdc_def)

lemma instruction_error_not_liquidity:
  "\<not> isLiquidityError ''Transaction failed: InstructionError''"
  by (simp add: isLiquidityError_def)

lemma stake_failing_steps:
  "auto_stake_steps (example_client quoting_venue enough_usdc) (example_state\<lparr>autoStake := True\<rparr>) =
     ([Notice ''Adding liquidity'', Notice ''Liquidity added'', Notice ''Staking LP tokens''],
      Inl (Error ''Transaction failed: InstructionError''))"
proof -
  have l: "addLiquidity enough_usdc a = Inr ''sig3''" for a
    by (simp add: enough_usdc_def short_of_usdc_def)
  show ?thesis
    by (simp add: auto_stake_steps_def example_client_def enough_usdc_ray enough_usdc_check
        enough_usdc_stake l)
qed

text \<open>
  C3, as stated: it fails. The wallet has enough USDC, liquidity is added, and the
  farm deposit comes back with a confirmation error while the wallet holds LP tokens of
  the mint \<^verbatim>\<open>LPMINT\<close>. The request posted names the token RAY, not the LP token.
\<close>

theorem stake_failure_records_ray_counterexample:
  "addLiquidity (sdk (example_client quoting_venue enough_usdc))
     (actualRayAmount (example_state\<lparr>autoStake := True\<rparr>) 50) = Inr ''sig3'' \<and>
   stakeRayToFarm (sdk (example_client quoting_venue enough_usdc)) =
     Inl (Error ''Transaction failed: InstructionError'') \<and>
   mutationFn (example_client quoting_venue enough_usdc) (example_state\<lparr>autoStake := True\<rparr>) =
     \<lparr>mr_toasts =
        [Notice ''Processing investment'', Notice ''Conversion successful'',
         Notice ''Adding liquidity'', Notice ''Liquidity added'', Notice ''Staking LP tokens'',
         Notice ''Staking failed''],
      mr_outcome = Inr \<lparr>r_opportunityId = 1, r_amount = 1, r_token = ''RAY''\<rparr>\<rparr> \<and>
   fetchFarmInfoById (sdk (example_client quoting_venue enough_usdc)) RAY_USDC_FARM =
     Inr [\<lparr>fi_lpMint = ''LPMINT''\<rparr>] \<and>
   ''RAY'' \<noteq> ''LPMINT''"
proof -
  have l: "addLiquidity enough_usdc a = Inr ''sig3''" for a
    by (simp add: enough_usdc_def short_of_usdc_def)
  have s: "swapSolToRay (swap (example_client quoting_venue enough_usdc)) 1 = Inr (Some ''sig1'')"
    by (simp add: example_client_def quoting_venue_swap)
  have m: "mutationFn (example_client quoting_venue enough_usdc) (example_state\<lparr>autoStake := True\<rparr>) =
     \<lparr>mr_toasts =
        [Notice ''Processing investment'', Notice ''Conversion successful'',
         Notice ''Adding liquidity'', Notice ''Liquidity added'', Notice ''Staking LP tokens'',
         Notice ''Staking failed''],
      mr_outcome = Inr \<lparr>r_opportunityId = 1, r_amount = 1, r_token = ''RAY''\<rparr>\<rparr>"
    unfolding mutationFn_def stake_failing_steps
    using s
    by (simp add: example_state_def isSolRayPair_def stake_error_toast_def
        instruction_error_not_liquidity [unfolded Error_def] Error_def)
  have f: "fetchFarmInfoById enough_usdc i = Inr [\<lparr>fi_lpMint = ''LPMINT''\<rparr>]" for i
    by (simp add: enough_usdc_def short_of_usdc_def)
  show ?thesis
    using m by (simp add: example_client_def l f enough_usdc_stake)
qed

text \<open>
  C3, amended: when the swap succeeded, liquidity was added and \<^verbatim>\<open>stakeRayToFarm\<close>
  then throws, the workflow still posts a position; its token is RAY and its amount the
  amount entered. The error only decides the last toast.
\<close>

theorem stake_failure_records_ray:
  assumes "isSolRayPair (opportunity st)" and "walletReady st"
    and "swapSolToRay (swap env) (amountValue st) = Inr txId"
    and "autoStake st"
    and "getRayBalance (sdk env) = Inr ray" and "tb_found ray" and "0 < tb_balance ray"
    and "checkUsdcBalanceForLiquidity (sdk env) (actualRayAmount st (tb_balance ray)) = Inr chk"
    and "hasEnoughUsdc chk"
    and "addLiquidity (sdk env) (actualRayAmount st (tb_balance ray)) = Inr liquidityTxId"
    and "stakeRayToFarm (sdk env) = Inl stakeError"
  shows "mutationFn env st =
           \<lparr>mr_toasts =
              [Notice ''Processing investment'', Notice ''Conversion successful'',
               Notice ''Adding liquidity'', Notice ''Liquidity added'',
               Notice ''Staking LP tokens'', stake_error_toast st stakeError],
            mr_outcome =
              Inr \<lparr>r_opportunityId = o_id (opportunity st), r_amount = amountValue st,
                   r_token = ''RAY''\<rparr>\<rparr>"
proof -
  have "auto_stake_steps env st =
          ([Notice ''Adding liquidity'', Notice ''Liquidity added'', Notice ''Staking LP tokens''],
           Inl stakeError)"
    using assms(5-11) by (simp add: auto_stake_steps_def)
  with assms(1-4) show ?thesis
    by (simp add: mutationFn_def)
qed

theorem stake_failure_records_ray_witness:
  "mutationFn (example_client quoting_venue enough_usdc) (example_state\<lparr>autoStake := True\<rparr>) =
     \<lparr>mr_toasts =
        [Notice ''Processing investment'', Notice ''Conversion successful'',
         Notice ''Adding liquidity'', Notice ''Liquidity added'', Notice ''Staking LP tokens'',
         stake_error_toast (example_state\<lparr>autoStake := True\<rparr>)
           (Error ''Transaction failed: InstructionError'')],
      mr_outcome = Inr \<lparr>r_opportunityId = 1, r_amount = 1, r_token = ''RAY''\<rparr>\<rparr>"
proof -
  let ?env = "example_client quoting_venue enough_usdc"
  let ?st = "example_state\<lparr>autoStake := True\<rparr>"
  let ?ray = "\<lparr>tb_balance = 50, tb_found = True\<rparr>"
  have h1: "isSolRayPair (opportunity ?st)"
    by (simp add: isSolRayPair_def example_state_def)
  have h2: "walletReady ?st"
    by (simp add: example_state_def)
  have h3: "swapSolToRay (swap ?env) (amountValue ?st) = Inr (Some ''sig1'')"
    by (simp add: example_client_def example_state_def quoting_venue_swap)
  have h4: "autoStake ?st"
    by simp
  have h5: "getRayBalance (sdk ?env) = Inr ?ray"
    by (simp add: example_client_def enough_usdc_ray)
  have h6: "tb_found ?ray" and h7: "0 < tb_balance ?ray"
    by simp_all
  have h8: "checkUsdcBalanceForLiquidity (sdk ?env) (actualRayAmount ?st (tb_balance ?ray)) =
              Inr \<lparr>hasEnoughUsdc = True, requiredUsdc = 4, usdcBalance = 5\<rparr>"
    by (simp add: example_client_def enough_usdc_check)
  have h9: "hasEnoughUsdc \<lparr>hasEnoughUsdc = True, requiredUsdc = 4, usdcBalance = 5\<rparr>"
    by simp
  have h10: "addLiquidity (sdk ?env) (actualRayAmount ?st (tb_balance ?ray)) = Inr ''sig3''"
    by (simp add: example_client_def enough_usdc_def short_of_usdc_def)
  have h11: "stakeRayToFarm (sdk ?env) = Inl (Error ''Transaction failed: InstructionError'')"
    by (simp add: example_client_def enough_usdc_stake)
  show ?thesis
    using stake_failure_records_ray [OF h1 h2 h3 h4 h5 h6 h7 h8 h9 h10 h11]
    by (simp add: example_state_def)
qed




text \<open>
  C5: when the swap of stage 1 throws, the mutation throws and posts nothing, so the
  workflow leaves the server as it was: no portfolio row, no transaction row.
  Invoking it again with the same inputs meets the same failure and leaves the server
  unchanged again. No \<^verbatim>\<open>Keep RAY\<close> offer is shown.
\<close>

theorem swap_failure_persists_nothing:
  assumes "isSolRayPair (opportunity st)"
    and "isl (swapSolToRay (swap env) (amountValue st))"
  shows "isl (mr_outcome (mutationFn env st)) \<and>
         investWorkflow env st getBalance sessionID now hash srv = srv \<and>
         investWorkflow env st getBalance sessionID now2 hash2
           (investWorkflow env st getBalance sessionID now hash srv) = srv \<and>
         mr_toasts (mutationFn env st) =
           (if walletReady st then [Notice ''Processing investment''] else [])"
  using mutationFn_swap_throws [OF assms] by (simp add: investWorkflow_def)

theorem swap_failure_persists_nothing_witness:
  "isSolRayPair (opportunity example_state) \<and>
   isl (swapSolToRay (swap (example_client failing_venue short_of_usdc))
          (amountValue example_state)) \<and>
   isl (mr_outcome (mutationFn (example_client failing_venue short_of_usdc) example_state)) \<and>
   investWorkflow (example_client failing_venue short_of_usdc) example_state example_rpc
     ''session1'' 200 ''ff'' example_server = example_server \<and>
   mr_toasts (mutationFn (example_client failing_venue short_of_usdc) example_state) =
     [Notice ''Processing investment'']"
proof -
  have h: "isl (swapSolToRay (swap (example_client failing_venue short_of_usdc))
                  (amountValue example_state))"
    by (simp add: example_client_def example_state_def failing_venue_swap)
  show ?thesis
    using example_pair h
      swap_failure_persists_nothing [OF example_pair h, of example_rpc "''session1''" 200 "''ff''"
        example_server 300 "''aa''"]
    by (simp add: example_state_def)
qed

text \<open>
  C6, as stated: it fails. The quote request throws \<^verbatim>\<open>Network Error\<close>;
  \<^verbatim>\<open>swapSolToRay\<close> rethrows that error, but the mutation throws a new error with a
  fixed message, and the caller does not see the underlying one.
\<close>

theorem swap_error_not_verbatim_counterexample:
  "swapSolToRay (swap (example_client failing_venue short_of_usdc)) (amountValue example_state) =
     Inl (Error ''Network Error'') \<and>
   mr_outcome (mutationFn (example_client failing_venue short_of_usdc) example_state) =
     Inl (Error ''Failed to convert SOL to RAY. Please try again.'') \<and>
   mr_outcome (mutationFn (example_client failing_venue short_of_usdc) example_state) \<noteq>
     Inl (Error ''Network Error'')"
proof -
  have s: "swapSolToRay (swap (example_client failing_venue short_of_usdc))
             (amountValue example_state) = Inl (Error ''Network Error'')"
    by (simp add: example_client_def example_state_def failing_venue_swap)
  then have "isl (swapSolToRay (swap (example_client failing_venue short_of_usdc))
                    (amountValue example_state))"
    by simp
  from mutationFn_swap_throws [OF example_pair this] s show ?thesis
    by (simp add: swap_failed_def Error_def)
qed

text \<open>
  C6, amended: when a step of the swap throws, \<^verbatim>\<open>swapSolToRay\<close> throws that same
  error, and the workflow aborts without posting a position; what its caller receives
  is a new error whose message is always
  \<^verbatim>\<open>Failed to convert SOL to RAY. Please try again.\<close>
\<close>

theorem swap_error_replaced_by_fixed_message:
  assumes "isSolRayPair (opportunity st)"
    and "swapSolToRay_steps (swap env) (amountValue st) = Inl e"
  shows "swapSolToRay (swap env) (amountValue st) = Inl e \<and>
         mr_outcome (mutationFn env st) =
           Inl (Error ''Failed to convert SOL to RAY. Please try again.'')"
proof -
  have s: "swapSolToRay (swap env) (amountValue st) = Inl e"
    using assms(2) by (simp add: swapSolToRay_def try_catch_rethrow)
  then have "isl (swapSolToRay (swap env) (amountValue st))"
    by simp
  from mutationFn_swap_throws [OF assms(1) this] s show ?thesis
    by (simp add: swap_failed_def)
qed

theorem swap_error_replaced_by_fixed_message_witness:
  "isSolRayPair (opportunity example_state) \<and>
   swapSolToRay_steps (swap (example_client failing_venue short_of_usdc))
     (amountValue example_state) = Inl (Error ''Network Error'') \<and>
   swapSolToRay (swap (example_client failing_venue short_of_usdc)) (amountValue example_state) =
     Inl (Error ''Network Error'') \<and>
   mr_outcome (mutationFn (example_client failing_venue short_of_usdc) example_state) =
     Inl (Error ''Failed to convert SOL to RAY. Please try again.'')"
proof -
  have h: "swapSolToRay_steps (swap (example_client failing_venue short_of_usdc))
             (amountValue example_state) = Inl (Error ''Network Error'')"
    by (simp add: example_client_def example_state_def failing_venue_steps)
  show ?thesis
    using example_pair h swap_error_replaced_by_fixed_message [OF example_pair h]
    by simp
qed

text \<open>
  The body the modal posts carries no user id and no deposit date, which the route's
  schema requires: the route answers 401 or 400 and leaves the server as it was.
\<close>

lemma modal_request_rejected:
  "fst (invest_route getBalance srv sessionID (body_of_request req) now hash) = srv"
  by (simp add: invest_route_def body_of_request_def parse_insertUserPortfolio_def Let_def
      split: option.split)

text \<open>
  A request the route accepts is stored as posted: the item returned carries the
  token of the body and its amount, rounded to two decimals.
\<close>

lemma createInvestment_item:
  "createInvestment d userId data now hash = (d1, Inr item) \<Longrightarrow>
     up_token item = ip_token data \<and> up_amount item = decimal_20_2 (ip_amount data)"
  by (auto simp: createInvestment_def prisma_userPortfolio_create_def
      prisma_transaction_create_def Let_def split: option.splits sum.splits if_splits)

lemma invest_route_records_body:
  assumes "snd (invest_route getBalance srv sessionID body now hash) = Json item"
  shows "\<exists>amount. ib_token body = Some (up_token item) \<and> ib_amount body = Some amount \<and>
           up_amount item = decimal_20_2 amount"
proof -
  from assms obtain userId investData d1 where
    p: "parse_insertUserPortfolio body = Inr investData" and
    c: "createInvestment (store srv) (toString_int userId) investData now hash = (d1, Inr item)"
    by (auto simp: invest_route_def Let_def split: option.splits sum.splits if_splits prod.splits)
  from p have "ib_token body = Some (ip_token investData) \<and>
               ib_amount body = Some (ip_amount investData)"
    by (auto simp: parse_insertUserPortfolio_def split: option.splits)
  with createInvestment_item [OF c] show ?thesis
    by simp
qed

section \<open>Properties of the route handlers\<close>

lemma latest_None: "latest xs = None \<longleftrightarrow> xs = []"
  by (induction xs) (auto split: option.splits)

lemma latest_in_set: "latest xs = Some y \<Longrightarrow> y \<in> set xs"
  by (induction xs arbitrary: y) (auto split: option.splits if_splits)

lemma getUserSubscription_Some:
  "getUserSubscription d userId = Some s \<Longrightarrow>
     s \<in> set (subscriptions d) \<and> s_userId s = userId \<and> s_isActive s"
  unfolding getUserSubscription_def by (drule latest_in_set) simp

lemma checkUserIsSubscribed_iff:
  "checkUserIsSubscribed d userId =
     (\<exists>s \<in> set (subscriptions d). s_userId s = userId \<and> s_isActive s)"
proof (cases "getUserSubscription d userId")
  case None
  then have "filter (\<lambda>s. s_userId s = userId \<and> s_isActive s) (subscriptions d) = []"
    by (simp add: getUserSubscription_def latest_None)
  then have "\<not> (\<exists>s \<in> set (subscriptions d). s_userId s = userId \<and> s_isActive s)"
    by (simp add: filter_empty_conv)
  with None show ?thesis
    by (simp add: checkUserIsSubscribed_def)
next
  case (Some s)
  from getUserSubscription_Some [OF Some] Some show ?thesis
    by (auto simp: checkUserIsSubscribed_def)
qed

lemma getWalletStatus_store:
  "getWalletStatus getBalance (srv\<lparr>store := d\<rparr>) sessionID = getWalletStatus getBalance srv sessionID"
  by (simp add: getWalletStatus_def)

lemma processMessage_subscriptions:
  "snd (processMessage env (srv\<lparr>store := (store srv)\<lparr>subscriptions := subs\<rparr>\<rparr>) sessionID m) =
   snd (processMessage env srv sessionID m)"
  by (simp add: processMessage_def getYieldOpportunities_def Let_def)

text \<open>
  C1, as stated: it fails for POST /api/chat. User 1 has no subscription row, so
  \<^verbatim>\<open>checkUserIsSubscribed\<close> is false, and the chat request of that user's connected
  session is answered with status 200 and the reply of the chat service.
\<close>

theorem chat_without_subscription_counterexample:
  "checkUserIsSubscribed (store example_server) 1 = False \<and>
   ws_userId (getWalletStatus example_rpc example_server ''session1'') = Some 1 \<and>
   snd (chat_route example_openai example_rpc example_server ''session1''
          (Some ''What pays best today?'')) =
     Json \<lparr>cr_response = ''Marinade staking pays 7% APY.'', cr_transactionIntent = no_intent\<rparr>"
proof -
  have a: "checkUserIsSubscribed (store example_server) 1 = False"
    by (simp add: checkUserIsSubscribed_iff example_server_def example_db_def)
  have b: "getWalletStatus example_rpc example_server ''session1'' =
             \<lparr>ws_connected = True, ws_address = Some ''WalletA'', ws_balance = Some 1,
              ws_userId = Some 1\<rparr>"
    by (simp add: getWalletStatus_def example_server_def example_rpc_def)
  have c: "snd (processMessage example_openai example_server ''session1'' ''What pays best today?'') =
             \<lparr>cr_response = ''Marinade staking pays 7% APY.'', cr_transactionIntent = no_intent\<rparr>"
    by (simp add: processMessage_def Let_def example_openai_def extractTransactionIntent_def
        getYieldOpportunities_def example_server_def example_db_def)
  show ?thesis
    using a c by (simp add: chat_route_def b case_prod_beta)
qed

text \<open>
  C1, amended: \<^verbatim>\<open>checkUserIsSubscribed\<close> is true exactly for a user with an active
  subscription row. POST /api/chat does not consult it: the response is the same
  whatever the subscription rows are, and a connected session with a non-empty message
  is answered with status 200. On the client, the AI recommendation queries are
  enabled, and the auto-invest request is posted, only when the wallet is connected and
  the client's subscribed flag is set.
\<close>

theorem subscription_gate_is_not_on_chat:
  "checkUserIsSubscribed d userId =
     (\<exists>s \<in> set (subscriptions d). s_userId s = userId \<and> s_isActive s) \<and>
   snd (chat_route env getBalance (srv\<lparr>store := (store srv)\<lparr>subscriptions := subs\<rparr>\<rparr>)
          sessionID message) =
     snd (chat_route env getBalance srv sessionID message) \<and>
   (ws_connected (getWalletStatus getBalance srv sessionID) \<and> message = Some m \<and> m \<noteq> [] \<longrightarrow>
      snd (chat_route env getBalance srv sessionID message) =
        Json (snd (processMessage env srv sessionID m))) \<and>
   ai_queries_enabled isConnected isSubscribed = (isConnected \<and> isSubscribed) \<and>
   (handleAutoInvest isConnected isSubscribed amount = PostAutoInvest amount) =
     (isConnected \<and> isSubscribed)"
proof -
  have "snd (chat_route env getBalance (srv\<lparr>store := (store srv)\<lparr>subscriptions := subs\<rparr>\<rparr>)
               sessionID message) =
        snd (chat_route env getBalance srv sessionID message)"
    by (simp add: chat_route_def getWalletStatus_store processMessage_subscriptions
        case_prod_beta split: option.split)
  moreover have "ws_connected (getWalletStatus getBalance srv sessionID) \<and> message = Some m \<and>
                 m \<noteq> [] \<longrightarrow>
                 snd (chat_route env getBalance srv sessionID message) =
                   Json (snd (processMessage env srv sessionID m))"
    by (simp add: chat_route_def case_prod_beta)
  ultimately show ?thesis
    by (simp add: checkUserIsSubscribed_iff ai_queries_enabled_def handleAutoInvest_def)
qed

theorem subscription_gate_is_not_on_chat_witness:
  "ws_connected (getWalletStatus example_rpc example_server ''session1'') \<and>
   checkUserIsSubscribed example_db 1 = False \<and>
   snd (chat_route example_openai example_rpc
          (example_server\<lparr>store := (store example_server)\<lparr>subscriptions := [example_subscription]\<rparr>\<rparr>)
          ''session1'' (Some ''What pays best today?'')) =
     snd (chat_route example_openai example_rpc example_server ''session1''
            (Some ''What pays best today?'')) \<and>
   snd (chat_route example_openai example_rpc example_server ''session1''
          (Some ''What pays best today?'')) =
     Json (snd (processMessage example_openai example_server ''session1''
                  ''What pays best today?'')) \<and>
   handleAutoInvest True False 10 \<noteq> PostAutoInvest 10"
proof -
  have c: "ws_connected (getWalletStatus example_rpc example_server ''session1'')"
    by (simp add: getWalletStatus_def example_server_def example_rpc_def)
  have n: "\<not> (\<exists>s \<in> set (subscriptions example_db). s_userId s = 1 \<and> s_isActive s)"
    by (simp add: example_db_def)
  show ?thesis
    using c n
      subscription_gate_is_not_on_chat
        [where d = example_db and userId = 1 and env = example_openai
           and getBalance = example_rpc and srv = example_server
           and subs = "[example_subscription]" and sessionID = "''session1''"
           and message = "Some ''What pays best today?''" and m = "''What pays best today?''"
           and isConnected = True and isSubscribed = False and amount = 10]
    by simp
qed

lemma attach_session_store:
  "store (fst (attach_session walletStatus srv sessionID userId)) = store srv"
  by (auto simp: attach_session_def setUserIdForSession_def split: option.splits)

lemma find_or_create_user_subscriptions:
  "subscriptions (store (fst (find_or_create_user walletStatus srv sessionID w now))) =
     subscriptions (store srv)"
  by (auto simp: find_or_create_user_def attach_session_store createUser_def
      prisma_user_create_def Let_def split: option.splits sum.splits if_splits)

lemma subscriber_subscriptions:
  "subscriptions (store (fst (subscriber getBalance srv sessionID w now))) =
     subscriptions (store srv)"
  by (simp add: subscriber_def Let_def find_or_create_user_subscriptions split: option.split)

text \<open>
  C9: a subscription request that parses and is for a user who already has an active
  subscription creates no subscription row; the response has status 200, success true,
  that user's existing active subscription and the message
  \<^verbatim>\<open>Subscription already active\<close>.
\<close>

theorem subscribe_route_already_active:
  assumes "parse_subscription body = Inr req"
    and "subscriber getBalance srv sessionID (sq_walletAddress req) now = (srv1, Inr userId)"
    and "checkUserIsSubscribed (store srv) userId"
  shows "\<exists>existing.
           getUserSubscription (store srv) userId = Some existing \<and>
           existing \<in> set (subscriptions (store srv)) \<and>
           s_userId existing = userId \<and> s_isActive existing \<and>
           subscribe_route getBalance srv sessionID body now =
             (srv1, Json \<lparr>sr_success = True, sr_subscription = existing,
                          sr_message = Some ''Subscription already active''\<rparr>) \<and>
           subscriptions (store srv1) = subscriptions (store srv)"
proof -
  from assms(3) obtain existing where e: "getUserSubscription (store srv) userId = Some existing"
    by (auto simp: checkUserIsSubscribed_def split: option.splits)
  have same: "subscriptions (store srv1) = subscriptions (store srv)"
    using subscriber_subscriptions [of getBalance srv sessionID "sq_walletAddress req" now]
    by (simp add: assms(2))
  then have e1: "getUserSubscription (store srv1) userId = Some existing"
    using e by (simp add: getUserSubscription_def)
  have "subscribe_route getBalance srv sessionID body now =
          (srv1, Json \<lparr>sr_success = True, sr_subscription = existing,
                       sr_message = Some ''Subscription already active''\<rparr>)"
    using getUserSubscription_Some [OF e1]
    by (simp add: subscribe_route_def assms(1,2) e1)
  with e same getUserSubscription_Some [OF e] show ?thesis
    by simp
qed

theorem subscribe_route_already_active_witness:
  "parse_subscription example_subscribe_body =
     Inr \<lparr>sq_walletAddress = ''WalletA'', sq_transactionHash = ''h2'', sq_amount = 10,
          sq_currency = ''USDC''\<rparr> \<and>
   subscriber example_rpc subscribed_server ''session1'' ''WalletA'' 200 =
     (subscribed_server, Inr 1) \<and>
   checkUserIsSubscribed (store subscribed_server) 1 \<and>
   subscribe_route example_rpc subscribed_server ''session1'' example_subscribe_body 200 =
     (subscribed_server,
      Json \<lparr>sr_success = True, sr_subscription = example_subscription,
            sr_message = Some ''Subscription already active''\<rparr>)"
proof -
  let ?req = "\<lparr>sq_walletAddress = ''WalletA'', sq_transactionHash = ''h2'', sq_amount = 10,
               sq_currency = ''USDC''\<rparr>"
  have h1: "parse_subscription example_subscribe_body = Inr ?req"
    by (simp add: parse_subscription_def example_subscribe_body_def)
  have h2: "subscriber example_rpc subscribed_server ''session1'' (sq_walletAddress ?req) 200 =
              (subscribed_server, Inr 1)"
    by (simp add: subscriber_def getWalletStatus_def subscribed_server_def example_server_def
        example_rpc_def)
  have g: "getUserSubscription (store subscribed_server) 1 = Some example_subscription"
    by (simp add: getUserSubscription_def subscribed_server_def example_subscription_def)
  have h3: "checkUserIsSubscribed (store subscribed_server) 1"
    by (simp add: checkUserIsSubscribed_def g) (simp add: example_subscription_def)
  show ?thesis
    using h1 h2 h3 g subscribe_route_already_active [OF h1 h2 h3]
    by auto
qed

lemma getUserByWalletAddress_None:
  "getUserByWalletAddress d w = None \<longleftrightarrow> w \<notin> set (map u_walletAddress (users d))"
  by (auto simp: getUserByWalletAddress_def prisma_user_findUnique_walletAddress_def
      find_None_iff)

lemma getUserByWalletAddress_Some:
  "getUserByWalletAddress d w = Some u \<Longrightarrow> u \<in> set (users d) \<and> u_walletAddress u = w"
  by (auto simp: getUserByWalletAddress_def prisma_user_findUnique_walletAddress_def
      find_Some_iff)

lemma update_lastLogin_keeps_wallets:
  "map u_walletAddress (map (\<lambda>u. if u_id u = i then u\<lparr>u_lastLogin := Some now\<rparr> else u) us) =
     map u_walletAddress us"
  by (induction us) simp_all

lemma update_lastLogin_keeps_ids:
  "map u_id (map (\<lambda>u. if u_id u = i then u\<lparr>u_lastLogin := Some now\<rparr> else u) us) = map u_id us"
  by (induction us) simp_all

lemma createUserPreferences_users:
  "createUserPreferences d userId data = Inr (d1, prefs) \<Longrightarrow> users d1 = users d"
  by (auto simp: createUserPreferences_def Let_def split: option.splits if_splits)

lemma register_known_wallet:
  assumes "getUserByWalletAddress d w = Some u" and "w \<noteq> []"
  shows "snd (register_route d interleaved (Some w) now) = Json (u_id u) \<and>
         map u_walletAddress (users (fst (register_route d interleaved (Some w) now))) =
           map u_walletAddress (users d) \<and>
         map u_id (users (fst (register_route d interleaved (Some w) now))) = map u_id (users d)"
proof -
  have "user_exists d (u_id u)"
    using getUserByWalletAddress_Some [OF assms(1)] by (auto simp: user_exists_def)
  then show ?thesis
    using assms
    by (simp add: register_route_def prisma_user_update_lastLogin_def
        update_lastLogin_keeps_wallets update_lastLogin_keeps_ids)
qed

lemma register_lost_race:
  assumes "getUserByWalletAddress d w = None"
    and "getUserByWalletAddress (interleaved d) w = Some u" and "w \<noteq> []"
  shows "register_route d interleaved (Some w) now = (interleaved d, Json (u_id u))"
proof -
  have "w \<in> set (map u_walletAddress (users (interleaved d)))"
    using assms(2) getUserByWalletAddress_None [of "interleaved d" w] by simp
  then have "createUser (interleaved d)
               \<lparr>iu_walletAddress = w, iu_username = None, iu_email = None,
                iu_lastLogin = Some now\<rparr> now = Inl (P2002 ''wallet_address'')"
    by (simp add: createUser_def prisma_user_create_def)
  moreover have "is_wallet_unique_violation (P2002 ''wallet_address'')"
    by (simp add: is_wallet_unique_violation_def P2002_def)
  ultimately show ?thesis
    using assms by (simp add: register_route_def Let_def)
qed

lemma register_new_wallet:
  assumes "getUserByWalletAddress d w = None"
    and "getUserByWalletAddress (interleaved d) w = None" and "w \<noteq> []"
  shows "snd (register_route d interleaved (Some w) now) = Json (users_seq (interleaved d)) \<and>
         map u_walletAddress (users (fst (register_route d interleaved (Some w) now))) =
           map u_walletAddress (users (interleaved d)) @ [w]"
proof -
  let ?u = "\<lparr>u_id = users_seq (interleaved d), u_walletAddress = w, u_username = None,
             u_email = None, u_createdAt = now, u_lastLogin = Some now\<rparr>"
  let ?d1 = "(interleaved d)\<lparr>users := users (interleaved d) @ [?u],
                             users_seq := users_seq (interleaved d) + 1\<rparr>"
  have c: "createUser (interleaved d)
             \<lparr>iu_walletAddress = w, iu_username = None, iu_email = None,
              iu_lastLogin = Some now\<rparr> now = Inr (?d1, ?u)"
    using assms(2) getUserByWalletAddress_None [of "interleaved d" w]
    by (simp add: createUser_def prisma_user_create_def Let_def)
  show ?thesis
  proof (cases "createUserPreferences ?d1 (toString_int (u_id ?u)) (default_preferences (u_id ?u))")
    case (Inl e)
    with c assms show ?thesis
      by (simp add: register_route_def Let_def)
  next
    case (Inr r)
    obtain d2 prefs where r: "r = (d2, prefs)"
      by (cases r)
    from createUserPreferences_users [OF Inr [unfolded r]] have "users d2 = users ?d1" .
    with c assms Inr r show ?thesis
      by (simp add: register_route_def Let_def)
  qed
qed

text \<open>
  C8: the registration route keeps at most one user row per wallet address. Provided
  the store, as other requests leave it between the route's lookup and its insert,
  still has no wallet address twice: the store after the request has none twice; a
  wallet address already registered gets no new row and the response carries the
  existing user's id; and when the wallet address was registered by another request in
  between, the insert's unique-constraint error is caught, no row is added, and the
  response carries the id of the user that request created.
\<close>

theorem register_route_one_user_per_wallet:
  assumes "wallet_unique d" and "wallet_unique (interleaved d)" and "w \<noteq> []"
  shows "wallet_unique (fst (register_route d interleaved (Some w) now)) \<and>
         (\<forall>u. getUserByWalletAddress d w = Some u \<longrightarrow>
            snd (register_route d interleaved (Some w) now) = Json (u_id u) \<and>
            map u_walletAddress (users (fst (register_route d interleaved (Some w) now))) =
              map u_walletAddress (users d) \<and>
            map u_id (users (fst (register_route d interleaved (Some w) now))) =
              map u_id (users d)) \<and>
         (\<forall>u. getUserByWalletAddress d w = None \<and>
              getUserByWalletAddress (interleaved d) w = Some u \<longrightarrow>
            register_route d interleaved (Some w) now = (interleaved d, Json (u_id u)))"
proof -
  have inv: "wallet_unique (fst (register_route d interleaved (Some w) now))"
  proof (cases "getUserByWalletAddress d w")
    case (Some u)
    from register_known_wallet [OF Some assms(3)] assms(1) show ?thesis
      by (simp add: wallet_unique_def)
  next
    case None
    show ?thesis
    proof (cases "getUserByWalletAddress (interleaved d) w")
      case (Some u)
      from register_lost_race [where interleaved = interleaved and d = d, OF None Some assms(3)] assms(2)
      show ?thesis
        by simp
    next
      case None2: None
      from register_new_wallet [where interleaved = interleaved and d = d, OF None None2 assms(3)]
        assms(2)
        getUserByWalletAddress_None [of "interleaved d" w] None2
      show ?thesis
        by (simp add: wallet_unique_def)
    qed
  qed
  show ?thesis
    using inv register_known_wallet [where d = d and w = w and interleaved = interleaved and now = now]
      register_lost_race [where d = d and w = w and interleaved = interleaved and now = now]
      assms(3)
    by blast
qed

theorem register_route_one_user_per_wallet_witness:
  "wallet_unique example_db \<and> wallet_unique (registers_WalletB example_db) \<and>
   getUserByWalletAddress example_db ''WalletB'' = None \<and>
   register_route example_db registers_WalletB (Some ''WalletB'') 200 =
     (registers_WalletB example_db, Json 2) \<and>
   map u_walletAddress (users (fst (register_route example_db registers_WalletB
                                      (Some ''WalletB'') 200))) = [''WalletA'', ''WalletB''] \<and>
   snd (register_route example_db (\<lambda>d. d) (Some ''WalletA'') 200) = Json 1 \<and>
   map u_walletAddress (users (fst (register_route example_db (\<lambda>d. d) (Some ''WalletA'') 200))) =
     [''WalletA'']"
proof -
  have h1: "wallet_unique example_db"
    by (simp add: wallet_unique_def example_db_def)
  have h2: "wallet_unique (registers_WalletB example_db)"
    by (simp add: wallet_unique_def registers_WalletB_def example_db_def)
  have h3: "''WalletB'' \<noteq> []" and h4: "''WalletA'' \<noteq> []"
    by simp_all
  have n: "getUserByWalletAddress example_db ''WalletB'' = None"
    by (simp add: getUserByWalletAddress_None example_db_def)
  have s: "getUserByWalletAddress (registers_WalletB example_db) ''WalletB'' =
             Some \<lparr>u_id = 2, u_walletAddress = ''WalletB'', u_username = None, u_email = None,
                   u_createdAt = 150, u_lastLogin = Some 150\<rparr>"
    by (simp add: getUserByWalletAddress_def prisma_user_findUnique_walletAddress_def
        registers_WalletB_def example_db_def)
  have k: "getUserByWalletAddress example_db ''WalletA'' =
             Some \<lparr>u_id = 1, u_walletAddress = ''WalletA'', u_username = None, u_email = None,
                   u_createdAt = 0, u_lastLogin = None\<rparr>"
    by (simp add: getUserByWalletAddress_def prisma_user_findUnique_walletAddress_def
        example_db_def)
  have id: "wallet_unique ((\<lambda>d. d) example_db)"
    using h1 by simp
  show ?thesis
    using h1 h2 n s k
      register_route_one_user_per_wallet
        [where d = example_db and interleaved = registers_WalletB and now = 200, OF h1 h2 h3]
      register_route_one_user_per_wallet
        [where d = example_db and interleaved = "\<lambda>d. d" and now = 200, OF h1 id h4]
    by (simp add: registers_WalletB_def example_db_def)
qed

end
